theory Spec2Isabelle
  imports Main "HOL-Library.Sublist"
begin

section \<open>Python values, exceptions and effects\<close>

text \<open>
  The two scripts (\<^verbatim>\<open>python/jenkins_manager.py\<close> and \<^verbatim>\<open>jenkins/generate_casc.py\<close>)
  are sequences of calls into the Docker SDK, the filesystem and external commands.
  Every such call is an \<open>event\<close> appended to the trace of the process state; what the
  outside world answers is read from a record of responses (\<open>world\<close>, below).
\<close>

text \<open>
  Exceptions. \<open>APIError\<close> is \<^verbatim>\<open>docker.errors.APIError\<close> (and its subclasses),
  \<open>OtherException\<close> is any exception of another class, named by its class (for the
  Docker SDK for instance \<^verbatim>\<open>requests.exceptions.ReadTimeout\<close>).
\<close>

datatype exc =
    SystemExit int
  | APIError
  | CalledProcessError int "string list"
  | FileNotFoundError string
  | OtherException string

datatype level = INFO | WARNING | ERROR

text \<open>
  The objects that \<^verbatim>\<open>yaml.safe_load\<close> builds. \<open>YNone\<close> is \<^verbatim>\<open>None\<close> (YAML null, and
  the value of an empty document); \<open>YFloat\<close> carries the \<^verbatim>\<open>repr\<close> of a float and
  \<open>YDate\<close> the text of a date or datetime; \<open>YBytes\<close> is a \<^verbatim>\<open>bytes\<close> object;
  \<open>YSeq\<close> is a list, by its elements in iteration order (a tuple and a set, which the
  code below cannot tell from a list, are written as \<open>YSeq\<close> too); \<open>YMap\<close> is a
  dict, by its items in insertion order, the keys distinct.
\<close>

datatype yaml =
    YNone
  | YBool bool
  | YInt int
  | YFloat string
  | YDate string
  | YBytes "nat list"
  | YStr string
  | YSeq "yaml list"
  | YMap "(yaml \<times> yaml) list"

text \<open>
  Arguments of a logging call: \<^verbatim>\<open>logging.info(fmt, *args)\<close> keeps both. \<open>Obj\<close> is an
  object of a parsed document that is not a \<^verbatim>\<open>str\<close>.
\<close>

datatype arg = S string | I int | L "string list" | NoneArg | Obj yaml

datatype event =
    Log level string "arg list"
  | ContainerStop string
  | ContainerRemove string
  | ImageRemove string
  | VolumeRemove string
  | PruneBuilds
  | NetworkRemove string
  | ContainerReload string
  | Sleep nat
  | Run "string list"
  | Print string

datatype node = Dir | File string

type_synonym filesystem = "string \<rightharpoonup> node"

record state =
  fs :: filesystem
  environ :: "string \<rightharpoonup> string"
  trace :: "event list"

type_synonym 'a prog = "state \<Rightarrow> (exc + 'a) \<times> state"

definition ret :: "'a \<Rightarrow> 'a prog" where
  "ret x s = (Inr x, s)"

definition raise :: "exc \<Rightarrow> 'a prog" where
  "raise e s = (Inl e, s)"

definition bnd :: "'a prog \<Rightarrow> ('a \<Rightarrow> 'b prog) \<Rightarrow> 'b prog" where
  "bnd m f s = (case m s of (Inl e, s') \<Rightarrow> (Inl e, s') | (Inr x, s') \<Rightarrow> f x s')"

definition seq :: "unit prog \<Rightarrow> 'b prog \<Rightarrow> 'b prog" where
  "seq m k = bnd m (\<lambda>_. k)"

definition emit :: "event \<Rightarrow> unit prog" where
  "emit e s = (Inr (), s\<lparr>trace := trace s @ [e]\<rparr>)"

definition logging_info :: "string \<Rightarrow> arg list \<Rightarrow> unit prog" where
  "logging_info fmt as = emit (Log INFO fmt as)"

definition logging_warning :: "string \<Rightarrow> arg list \<Rightarrow> unit prog" where
  "logging_warning fmt as = emit (Log WARNING fmt as)"

definition logging_error :: "string \<Rightarrow> arg list \<Rightarrow> unit prog" where
  "logging_error fmt as = emit (Log ERROR fmt as)"

text \<open>\<^verbatim>\<open>sys.exit(n)\<close> raises \<^verbatim>\<open>SystemExit\<close>.\<close>

definition sys_exit :: "int \<Rightarrow> 'a prog" where
  "sys_exit n = raise (SystemExit n)"

text \<open>\<^verbatim>\<open>for x in xs: body\<close>, the body run for its effects; an exception leaves the loop.\<close>

fun for_each :: "'a list \<Rightarrow> ('a \<Rightarrow> unit prog) \<Rightarrow> unit prog" where
  "for_each [] body = ret ()"
| "for_each (x # xs) body = seq (body x) (for_each xs body)"

text \<open>\<^verbatim>\<open>try: body  except docker.errors.APIError: handler\<close>.\<close>

definition except_APIError :: "unit prog \<Rightarrow> unit prog \<Rightarrow> unit prog" where
  "except_APIError body handler s =
     (case body s of (Inl APIError, s') \<Rightarrow> handler s' | r \<Rightarrow> r)"

text \<open>
  The exit status of the interpreter: 0 when \<^verbatim>\<open>main()\<close> returns, the argument of
  \<^verbatim>\<open>sys.exit\<close>, and 1 after a traceback of any other exception.
\<close>

fun exit_status :: "exc + unit \<Rightarrow> int" where
  "exit_status (Inr _) = 0"
| "exit_status (Inl (SystemExit n)) = n"
| "exit_status (Inl _) = 1"

text \<open>Truth value of a Python \<^verbatim>\<open>str | None\<close>: \<^verbatim>\<open>None\<close> and \<^verbatim>\<open>''\<close> are false.\<close>

fun truthy :: "string option \<Rightarrow> bool" where
  "truthy None = False"
| "truthy (Some s) = (s \<noteq> [])"

text \<open>\<^verbatim>\<open>x if x else ''\<close> for a Python \<^verbatim>\<open>str | None\<close>.\<close>

definition str_or_empty :: "string option \<Rightarrow> string" where
  "str_or_empty x = (if truthy x then the x else [])"

text \<open>\<^verbatim>\<open>sub in s\<close> on strings is \<open>sublist sub s\<close>; \<^verbatim>\<open>s.startswith(p)\<close> is \<open>prefix p s\<close>.\<close>

section \<open>Service Topology Reader: \<^verbatim>\<open>get_service_names\<close>\<close>

text \<open>
  The operations of the reader on a parsed document, with the exceptions Python raises
  for an object that does not support them.
\<close>

text \<open>\<^verbatim>\<open>d.get(k, default)\<close>: only a dict has the method.\<close>

definition py_get :: "yaml \<Rightarrow> yaml \<Rightarrow> yaml \<Rightarrow> exc + yaml" where
  "py_get d k dflt =
     (case d of
        YMap items \<Rightarrow> Inr (case map_of items k of None \<Rightarrow> dflt | Some v \<Rightarrow> v)
      | _ \<Rightarrow> Inl (OtherException ''AttributeError''))"

text \<open>
  \<^verbatim>\<open>for x in v\<close>: the keys of a dict, the elements of a list, the characters of a
  \<^verbatim>\<open>str\<close>, the byte values of a \<^verbatim>\<open>bytes\<close>; another object is not iterable.
\<close>

fun py_iter :: "yaml \<Rightarrow> exc + yaml list" where
  "py_iter (YMap items) = Inr (map fst items)"
| "py_iter (YSeq xs) = Inr xs"
| "py_iter (YStr s) = Inr (map (\<lambda>c. YStr [c]) s)"
| "py_iter (YBytes bs) = Inr (map (\<lambda>b. YInt (int b)) bs)"
| "py_iter _ = Inl (OtherException ''TypeError'')"

text \<open>
  \<^verbatim>\<open>sub in v\<close> for a \<^verbatim>\<open>str\<close> \<open>sub\<close>: a substring test on a \<^verbatim>\<open>str\<close> (\<open>sublist\<close>),
  membership in a list and among the keys of a dict; \<^verbatim>\<open>TypeError\<close> for another object.
\<close>

fun py_contains :: "string \<Rightarrow> yaml \<Rightarrow> exc + bool" where
  "py_contains sub (YStr s) = Inr (sublist sub s)"
| "py_contains sub (YSeq xs) = Inr (YStr sub \<in> set xs)"
| "py_contains sub (YMap items) = Inr (YStr sub \<in> set (map fst items))"
| "py_contains sub _ = Inl (OtherException ''TypeError'')"

text \<open>The truth value of an object, as \<^verbatim>\<open>not x\<close> reads it.\<close>

fun py_truthy :: "yaml \<Rightarrow> bool" where
  "py_truthy YNone = False"
| "py_truthy (YBool b) = b"
| "py_truthy (YInt i) = (i \<noteq> 0)"
| "py_truthy (YFloat r) = (r \<noteq> ''0.0'' \<and> r \<noteq> ''-0.0'')"
| "py_truthy (YDate d) = True"
| "py_truthy (YBytes bs) = (bs \<noteq> [])"
| "py_truthy (YStr s) = (s \<noteq> [])"
| "py_truthy (YSeq xs) = (xs \<noteq> [])"
| "py_truthy (YMap items) = (items \<noteq> [])"

text \<open>An object as a logging argument.\<close>

fun log_arg :: "yaml \<Rightarrow> arg" where
  "log_arg (YStr s) = S s"
| "log_arg v = Obj v"

text \<open>
  An object as an item of the argument list of \<^verbatim>\<open>subprocess.run\<close>. The reader
  returns an object on which the substring test has answered, a \<^verbatim>\<open>str\<close>, a list or a
  dict; for an item that is a list or a dict \<^verbatim>\<open>subprocess.run\<close> raises
  \<^verbatim>\<open>TypeError\<close> before it starts anything.
\<close>

fun as_str :: "yaml \<Rightarrow> exc + string" where
  "as_str (YStr s) = Inr s"
| "as_str _ = Inl (OtherException ''TypeError'')"

text \<open>The result of a computation without effects: returned, or raised.\<close>

definition lift :: "exc + 'a \<Rightarrow> 'a prog" where
  "lift r s = (r, s)"

text \<open>The two criteria of lines 193 and 195, for a service name that is a \<^verbatim>\<open>str\<close>.\<close>

definition is_agent_name :: "string \<Rightarrow> bool" where
  "is_agent_name service = sublist ''agent'' service"

definition is_controller_name :: "string \<Rightarrow> bool" where
  "is_controller_name service = (service = ''jenkins'' \<or> sublist ''controller'' service)"

text \<open>
  What the loop of line 192 iterates, \<^verbatim>\<open>compose.get('services', {})\<close>: the declared
  services, or the exception of \<^verbatim>\<open>get\<close> or of the iteration.
\<close>

definition declared_services :: "yaml \<Rightarrow> exc + yaml list" where
  "declared_services compose =
     (case py_get compose (YStr ''services'') (YMap []) of
        Inl e \<Rightarrow> Inl e
      | Inr services \<Rightarrow> py_iter services)"

text \<open>
  The loop of lines 192-196, on the pair of variables it assigns. An exception of one of
  the tests leaves the loop; \<^verbatim>\<open>or\<close> does not evaluate its second operand when the
  first is true.
\<close>

fun scan_services :: "yaml list \<Rightarrow> yaml \<times> yaml \<Rightarrow> exc + yaml \<times> yaml" where
  "scan_services [] acc = Inr acc"
| "scan_services (service # rest) (agent_service_name, controller_service_name) =
     (case py_contains ''agent'' service of
        Inl e \<Rightarrow> Inl e
      | Inr is_agent \<Rightarrow>
         (case (if service = YStr ''jenkins'' then Inr True else py_contains ''controller'' service) of
            Inl e \<Rightarrow> Inl e
          | Inr is_controller \<Rightarrow>
              scan_services rest
                (if is_agent then service else agent_service_name,
                 if is_controller then service else controller_service_name)))"

text \<open>
  \<^verbatim>\<open>open(path).read()\<close>: \<^verbatim>\<open>FileNotFoundError\<close> for a missing path,
  \<^verbatim>\<open>IsADirectoryError\<close> for a directory.
\<close>

definition read_text :: "string \<Rightarrow> string prog" where
  "read_text path s =
     (case fs s path of
        Some (File txt) \<Rightarrow> (Inr txt, s)
      | Some Dir \<Rightarrow> (Inl (OtherException ''IsADirectoryError''), s)
      | None \<Rightarrow> (Inl (FileNotFoundError path), s))"

text \<open>
  \<open>yaml_safe_load\<close> is the YAML parser, a parameter: it returns the parsed document or
  raises.
\<close>

definition get_service_names ::
  "(string \<Rightarrow> exc + yaml) \<Rightarrow> string \<Rightarrow> (yaml \<times> yaml) prog" where
  "get_service_names yaml_safe_load compose_file =
     seq (logging_info ''Reading service names from compose file: %s'' [S compose_file])
    (bnd (read_text compose_file) (\<lambda>f.
     bnd (lift (yaml_safe_load f)) (\<lambda>compose.
     bnd (lift (declared_services compose)) (\<lambda>services.
     bnd (lift (scan_services services (YNone, YNone))) (\<lambda>(agent_service_name, controller_service_name).
       if \<not> py_truthy agent_service_name \<or> \<not> py_truthy controller_service_name
       then seq (logging_error ''Could not find required service names in docker-compose.yml.'' [])
                (sys_exit 1)
       else seq (logging_info ''Agent service: %s, Controller service: %s''
                   [log_arg agent_service_name, log_arg controller_service_name])
                (ret (agent_service_name, controller_service_name)))))))"

section \<open>The outside world\<close>

text \<open>
  What a container reports after a \<^verbatim>\<open>reload()\<close>: the fields of \<^verbatim>\<open>attrs\<close> that the
  script reads. \<open>networks\<close> is \<^verbatim>\<open>attrs['NetworkSettings']['Networks']\<close> as the list of
  its items in iteration order (\<^verbatim>\<open>None\<close> and \<^verbatim>\<open>{}\<close> are both the empty list),
  each value a dict; \<open>config_env\<close> is \<^verbatim>\<open>attrs.get('Config', {}).get('Env', [])\<close>;
  \<open>ip_address\<close> is \<^verbatim>\<open>attrs['NetworkSettings']['IPAddress']\<close>.
\<close>

type_synonym net_data = "string \<rightharpoonup> string"

record attrs =
  status :: string
  networks :: "(string \<times> net_data) list"
  config_env :: "string list"
  ip_address :: string

text \<open>
  A container object of the SDK. \<open>stop_raises\<close> and \<open>remove_raises\<close> say what
  \<^verbatim>\<open>stop()\<close> and \<^verbatim>\<open>remove(force=True)\<close> raise (\<open>None\<close>: they return);
  \<open>reloads i\<close> is what the daemon reports at the \<open>i\<close>-th later \<^verbatim>\<open>reload()\<close>.
\<close>

record container =
  cname :: string
  cattrs :: attrs
  stop_raises :: "exc option"
  remove_raises :: "exc option"
  reloads :: "nat \<Rightarrow> attrs"

record image =
  image_id :: string
  image_remove_raises :: "exc option"

record volume =
  volume_name :: string
  volume_remove_raises :: "exc option"

record network =
  network_name :: string
  network_remove_raises :: "exc option"

text \<open>
  The answers of the outside world during one run. The container lists are named by
  the call that reads them: \<^verbatim>\<open>client.containers.list()\<close> at line 38, and
  \<^verbatim>\<open>client.containers.list(all=True)\<close> at lines 45, 126 and 157. \<open>spawn argv files\<close>
  is an external command: \<open>None\<close> when the executable is not found, otherwise its exit
  code and the filesystem it leaves.
\<close>

record world =
  containers_list_running :: "container list"
  containers_list_all_cleanup :: "container list"
  images_list :: "image list"
  volumes_list :: "volume list"
  prune_builds_raises :: "exc option"
  networks_list :: "network list"
  containers_list_all_agents :: "container list"
  containers_list_all_controller :: "container list"
  which :: "string \<Rightarrow> string option"
  yaml_safe_load :: "string \<Rightarrow> exc + yaml"
  mkdtemp :: string
  spawn :: "string list \<Rightarrow> filesystem \<Rightarrow> (int \<times> filesystem) option"

text \<open>A call into the SDK: the event, then the exception if the call raises one.\<close>

definition sdk_call :: "event \<Rightarrow> exc option \<Rightarrow> unit prog" where
  "sdk_call e r = seq (emit e) (case r of None \<Rightarrow> ret () | Some x \<Rightarrow> raise x)"

text \<open>
  \<^verbatim>\<open>subprocess.run(argv, check=True)\<close>: the command is started (\<open>Run\<close>) and waited
  for (\<open>run_process\<close>); a missing executable and a non-zero exit code raise.
\<close>

definition run_process :: "world \<Rightarrow> string list \<Rightarrow> unit prog" where
  "run_process w argv s =
     (case spawn w argv (fs s) of
        None \<Rightarrow> (Inl (FileNotFoundError (concat (take 1 argv))), s)
      | Some (returncode, files) \<Rightarrow>
          if returncode \<noteq> 0 then (Inl (CalledProcessError returncode argv), s\<lparr>fs := files\<rparr>)
          else (Inr (), s\<lparr>fs := files\<rparr>))"

definition subprocess_run :: "world \<Rightarrow> string list \<Rightarrow> unit prog" where
  "subprocess_run w argv = seq (emit (Run argv)) (run_process w argv)"

section \<open>Cleanup Executor: \<^verbatim>\<open>cleanup\<close>\<close>

definition cleanup :: "world \<Rightarrow> unit prog" where
  "cleanup w =
     seq (logging_info ''Stopping all running containers...'' [])
    (seq (for_each (containers_list_running w) (\<lambda>container.
            except_APIError (sdk_call (ContainerStop (cname container)) (stop_raises container))
              (logging_warning ''Failed to stop container %s'' [S (cname container)])))
    (seq (logging_info ''Removing all containers...'' [])
    (seq (for_each (containers_list_all_cleanup w) (\<lambda>container.
            except_APIError (sdk_call (ContainerRemove (cname container)) (remove_raises container))
              (logging_warning ''Failed to remove container %s'' [S (cname container)])))
    (seq (logging_info ''Removing all unused images...'' [])
    (seq (for_each (images_list w) (\<lambda>image.
            except_APIError (sdk_call (ImageRemove (image_id image)) (image_remove_raises image))
              (logging_warning ''Failed to remove image %s'' [S (image_id image)])))
    (seq (logging_info ''Removing all unused volumes...'' [])
    (seq (for_each (volumes_list w) (\<lambda>volume.
            except_APIError (sdk_call (VolumeRemove (volume_name volume)) (volume_remove_raises volume))
              (logging_warning ''Failed to remove volume %s'' [S (volume_name volume)])))
    (seq (logging_info ''Cleaning up build cache...'' [])
    (seq (except_APIError (sdk_call PruneBuilds (prune_builds_raises w))
            (logging_warning ''Failed to prune build cache'' []))
    (seq (logging_info ''Removing all unused networks...'' [])
    (seq (for_each (networks_list w) (\<lambda>network.
            if network_name network \<notin> set [''bridge'', ''host'', ''none'']
            then except_APIError (sdk_call (NetworkRemove (network_name network)) (network_remove_raises network))
                   (logging_warning ''Failed to remove network %s'' [S (network_name network)])
            else ret ()))
         (logging_info ''Docker cleanup complete.'' []))))))))))))"

section \<open>\<^verbatim>\<open>check_uv\<close>\<close>

definition check_uv :: "world \<Rightarrow> unit prog" where
  "check_uv w =
     seq (logging_info (CHR 0x27 # ''uv'' @ CHR 0x27 # '' check started.'') [])
       (if \<not> truthy (which w ''uv'')
        then seq (logging_info (CHR 0x27 # ''uv'' @ CHR 0x27 # '' is not installed. Please install it manually.'') [])
                 (sys_exit 1)
        else ret ())"

section \<open>Credential Provisioner: \<^verbatim>\<open>setup_ssh_key\<close>\<close>

text \<open>\<^verbatim>\<open>os.path.join(a, b)\<close> for two components.\<close>

definition os_path_join :: "string \<Rightarrow> string \<Rightarrow> string" where
  "os_path_join a b =
     (if prefix ''/'' b then b
      else if a = [] \<or> suffix ''/'' a then a @ b
      else a @ ''/'' @ b)"

text \<open>\<^verbatim>\<open>shutil.rmtree(d)\<close>: the directory and every path below it are gone.\<close>

definition rmtree :: "string \<Rightarrow> filesystem \<Rightarrow> filesystem" where
  "rmtree d files = (\<lambda>p. if p = d \<or> prefix (d @ ''/'') p then None else files p)"

text \<open>
  \<^verbatim>\<open>with tempfile.TemporaryDirectory() as d: body\<close>: the directory is created, the body
  runs, and the directory is removed on the way out, whether the body returns or raises.
\<close>

definition with_TemporaryDirectory :: "string \<Rightarrow> (string \<Rightarrow> 'a prog) \<Rightarrow> 'a prog" where
  "with_TemporaryDirectory d body s =
     (case body d (s\<lparr>fs := (fs s)(d \<mapsto> Dir)\<rparr>) of
        (r, s') \<Rightarrow> (r, s'\<lparr>fs := rmtree d (fs s')\<rparr>))"

definition setup_ssh_key :: "world \<Rightarrow> (string \<times> string) prog" where
  "setup_ssh_key w =
     seq (logging_info ''Generating SSH key pair.'' [])
       (with_TemporaryDirectory (mkdtemp w) (\<lambda>tmp_key_dir.
          let key_path = os_path_join tmp_key_dir ''id_ed25519'' in
          seq (subprocess_run w [''ssh-keygen'', ''-t'', ''ed25519'', ''-N'', [], ''-f'', key_path])
         (bnd (read_text key_path) (\<lambda>jenkins_ssh_private_key.
          bnd (read_text (key_path @ ''.pub'')) (\<lambda>jenkins_agent_ssh_pubkey.
          seq (logging_info ''Temporary SSH key directory %s deleted.'' [S tmp_key_dir])
              (ret (jenkins_ssh_private_key, jenkins_agent_ssh_pubkey)))))))"

section \<open>Formatting integers\<close>

text \<open>\<^verbatim>\<open>f"{n}"\<close> for an \<^verbatim>\<open>int\<close>: decimal digits, with a minus sign when negative.\<close>

fun str_nat :: "nat \<Rightarrow> string" where
  "str_nat n = (if n < 10 then [''0123456789'' ! n] else str_nat (n div 10) @ [''0123456789'' ! (n mod 10)])"

definition str_int :: "int \<Rightarrow> string" where
  "str_int i = (if i < 0 then ''-'' @ str_nat (nat (- i)) else str_nat (nat i))"

section \<open>Agent Launcher: \<^verbatim>\<open>setup_jenkins_agents\<close>\<close>

text \<open>
  The service name is what the reader returned, an object of the parsed document; the
  command is run when it is a \<^verbatim>\<open>str\<close>.
\<close>

definition setup_jenkins_agents :: "world \<Rightarrow> int \<Rightarrow> yaml \<Rightarrow> unit prog" where
  "setup_jenkins_agents w agent_count agent_service_name =
     seq (logging_info ''Starting %d %s containers...'' [I agent_count, log_arg agent_service_name])
    (bnd (lift (as_str agent_service_name)) (\<lambda>name.
       subprocess_run w
          [''docker'', ''compose'', ''up'', name,
           ''--build'', ''-d'', ''--scale'', name @ ''='' @ str_int agent_count]))"

section \<open>Agent Discoverer: \<^verbatim>\<open>collect_agents_and_generate_casc\<close>\<close>

text \<open>\<^verbatim>\<open>container.reload()\<close> replaces the attributes of the object by the daemon's answer.\<close>

definition container_reload :: "container \<Rightarrow> container prog" where
  "container_reload c =
     seq (emit (ContainerReload (cname c)))
         (ret (c\<lparr>cattrs := reloads c 0, reloads := (\<lambda>i. reloads c (Suc i))\<rparr>))"

text \<open>
  The loop of lines 129-133, \<^verbatim>\<open>for _ in range(20)\<close> with the number of iterations left
  as first argument; it returns the container object as the last reload left it.
\<close>

fun poll_running :: "nat \<Rightarrow> container \<Rightarrow> container prog" where
  "poll_running 0 c = ret c"
| "poll_running (Suc k) c =
     bnd (container_reload c) (\<lambda>c'.
       if status (cattrs c') = ''running'' then ret c'
       else seq (emit (Sleep 2)) (poll_running k c'))"

text \<open>The loop of lines 138-141 on the variable \<^verbatim>\<open>ip\<close>.\<close>

fun scan_networks :: "net_data list \<Rightarrow> string option \<Rightarrow> string option" where
  "scan_networks [] ip = ip"
| "scan_networks (net_data # rest) ip =
     (let ip' = net_data ''IPAddress'' in
      if truthy ip' then ip' else scan_networks rest ip')"

text \<open>Lines 135-142: the value appended to \<^verbatim>\<open>agent_ips\<close>.\<close>

definition container_ip :: "container \<Rightarrow> string" where
  "container_ip c =
     (let nets = networks (cattrs c);
          ip = (if nets \<noteq> [] then scan_networks (map snd nets) None else None)
      in str_or_empty ip)"

text \<open>The loop of lines 128-142 on the two lists it appends to.\<close>

fun discover :: "container list \<Rightarrow> string list \<times> string list \<Rightarrow> (string list \<times> string list) prog" where
  "discover [] acc = ret acc"
| "discover (c # cs) (agent_names, agent_ips) =
     bnd (poll_running 20 c) (\<lambda>c'.
       discover cs (agent_names @ [cname c'], agent_ips @ [container_ip c']))"

definition collect_agents_and_generate_casc :: "world \<Rightarrow> string \<Rightarrow> unit prog" where
  "collect_agents_and_generate_casc w agent_service_name =
     seq (logging_info ''Collecting agent names and IPs for service %s.'' [S agent_service_name])
       (let all_containers = containers_list_all_agents w;
            agent_containers = filter (\<lambda>c. sublist agent_service_name (cname c)) all_containers
        in bnd (discover agent_containers ([], [])) (\<lambda>(agent_names, agent_ips).
           seq (logging_info ''Agent names: %s, Agent IPs: %s'' [L agent_names, L agent_ips])
               (subprocess_run w ([''python3'', ''jenkins/generate_casc.py''] @ agent_names @ agent_ips))))"

section \<open>\<^verbatim>\<open>get_jenkins_url_from_env\<close> and the Controller Launcher\<close>

text \<open>\<^verbatim>\<open>env.split('=', 1)[1]\<close> for a string that contains \<^verbatim>\<open>=\<close>.\<close>

definition after_equals :: "string \<Rightarrow> string" where
  "after_equals env = drop 1 (dropWhile (\<lambda>ch. ch \<noteq> CHR ''='') env)"

fun scan_env :: "string list \<Rightarrow> string option" where
  "scan_env [] = None"
| "scan_env (env # rest) =
     (if prefix ''JENKINS_URL='' env then Some (after_equals env) else scan_env rest)"

definition get_jenkins_url_from_env :: "world \<Rightarrow> string \<Rightarrow> string option prog" where
  "get_jenkins_url_from_env w controller_service_name =
     seq (logging_info ''Getting Jenkins URL for controller service: %s'' [S controller_service_name])
       (case find (\<lambda>c. sublist controller_service_name (cname c)) (containers_list_all_controller w) of
          Some controller_container \<Rightarrow>
            bnd (container_reload controller_container) (\<lambda>c'.
              let jenkins_url = scan_env (config_env (cattrs c'));
                  ip = ip_address (cattrs c')
              in seq (logging_info ''Jenkins URL: %s''
                        [case jenkins_url of None \<Rightarrow> NoneArg | Some u \<Rightarrow> S u])
                   (ret (if truthy jenkins_url then jenkins_url
                         else Some (''http://'' @ ip @ '':8080''))))
        | None \<Rightarrow>
            seq (logging_warning ''Controller container not found for service: %s'' [S controller_service_name])
                (ret None))"

definition setup_jenkins_controller :: "world \<Rightarrow> yaml \<Rightarrow> unit prog" where
  "setup_jenkins_controller w controller_service_name =
     seq (logging_info ''Starting %s controller...'' [log_arg controller_service_name])
    (bnd (lift (as_str controller_service_name)) (\<lambda>name.
       subprocess_run w [''docker'', ''compose'', ''up'', ''--build'', ''-d'', name]))"

section \<open>Orchestrator: \<^verbatim>\<open>create_jenkins_system\<close> and \<^verbatim>\<open>main\<close>\<close>

text \<open>\<^verbatim>\<open>os.environ[k] = v\<close>.\<close>

definition os_environ_set :: "string \<Rightarrow> string \<Rightarrow> unit prog" where
  "os_environ_set k v s = (Inr (), s\<lparr>environ := (environ s)(k \<mapsto> v)\<rparr>)"

text \<open>
  \<^verbatim>\<open>collect_agents_and_generate_casc\<close> and \<^verbatim>\<open>get_jenkins_url_from_env\<close> are reached
  after \<^verbatim>\<open>subprocess.run\<close> has taken the name as an argument, that is with a
  \<^verbatim>\<open>str\<close>: \<open>as_str\<close> gives them its characters.
\<close>

definition create_jenkins_system :: "world \<Rightarrow> string \<Rightarrow> int \<Rightarrow> unit prog" where
  "create_jenkins_system w compose_file agent_count =
     seq (logging_info ''Creating Jenkins system with compose file: %s and agent count: %d''
            [S compose_file, I agent_count])
    (seq (check_uv w)
    (bnd (get_service_names (yaml_safe_load w) compose_file) (\<lambda>(agent_service_name, controller_service_name).
     bnd (setup_ssh_key w) (\<lambda>(jenkins_ssh_private_key, jenkins_agent_ssh_pubkey).
     seq (os_environ_set ''JENKINS_SSH_PRIVATE_KEY'' jenkins_ssh_private_key)
    (seq (os_environ_set ''JENKINS_AGENT_SSH_PUBKEY'' jenkins_agent_ssh_pubkey)
    (seq (setup_jenkins_agents w agent_count agent_service_name)
    (bnd (lift (as_str agent_service_name)) (\<lambda>agent_name.
     seq (collect_agents_and_generate_casc w agent_name)
    (seq (setup_jenkins_controller w controller_service_name)
    (seq (logging_info ''Jenkins agents and controller are up and casc.generated.yaml is updated.'' [])
    (bnd (lift (as_str controller_service_name)) (\<lambda>controller_name.
     bnd (get_jenkins_url_from_env w controller_name) (\<lambda>jenkins_url.
       if truthy jenkins_url then logging_info ''Jenkins URL: %s'' [S (the jenkins_url)]
       else ret ())))))))))))))"

text \<open>The parsed command line.\<close>

record args =
  clean :: bool
  compose_file :: string
  num_agents :: int

definition path_exists :: "string \<Rightarrow> state \<Rightarrow> bool" where
  "path_exists p s = (fs s p \<noteq> None)"

definition main :: "world \<Rightarrow> args \<Rightarrow> unit prog" where
  "main w a =
     seq (logging_info ''Starting Jenkins Docker Manager main function.'' [])
       (if num_agents a = 0
        then logging_info ''Number of Jenkins agents is 0. Exiting.'' []
        else if clean a
        then seq (cleanup w)
            (seq (logging_info ''Cleanup complete. Proceeding to Jenkins system setup...'' [])
               (\<lambda>s. if path_exists (compose_file a) s
                    then create_jenkins_system w (compose_file a) (num_agents a) s
                    else seq (logging_error ''Compose file %s does not exist. Exiting.'' [S (compose_file a)])
                             (sys_exit 1) s))
        else logging_info ''No cleanup requested. Exiting.'' [])"

section \<open>Template Renderer: \<^verbatim>\<open>jenkins/generate_casc.py\<close>\<close>

text \<open>An agent record, \<^verbatim>\<open>{"name": n, "ip": i}\<close>.\<close>

record agent =
  name :: string
  ip :: string

text \<open>
  The template file \<^verbatim>\<open>jenkins/casc.yaml\<close> and the template engine are not part of the
  sources: \<open>render\<close> is the engine, from the template's text and the value of
  \<^verbatim>\<open>agents\<close> to the rendered document or an exception. \<open>argv\<close> is \<^verbatim>\<open>sys.argv[1:]\<close>.
\<close>

definition generate_casc :: "(string \<Rightarrow> agent list \<Rightarrow> exc + string) \<Rightarrow> string list \<Rightarrow> unit prog" where
  "generate_casc render argv =
     (let num_agents = length argv div 2;
          agent_names = take num_agents argv;
          agent_ips = drop num_agents argv;
          agents = map (\<lambda>(n, i). \<lparr>name = n, ip = i\<rparr>) (zip agent_names agent_ips)
      in bnd (\<lambda>s. case fs s (os_path_join ''jenkins'' ''casc.yaml'') of
                    Some (File txt) \<Rightarrow> (Inr txt, s)
                  | _ \<Rightarrow> (Inl (OtherException ''jinja2.exceptions.TemplateNotFound''), s)) (\<lambda>template.
         case render template agents of
           Inl e \<Rightarrow> raise e
         | Inr rendered \<Rightarrow>
             seq (\<lambda>s. (Inr (), s\<lparr>fs := (fs s)(''jenkins/casc.generated.yaml'' \<mapsto> File rendered)\<rparr>))
                 (emit (Print (''Rendered jenkins/casc.generated.yaml for '' @ str_nat num_agents @ '' agents.'')))))"

section \<open>Closed forms used in the statements\<close>

text \<open>
  The statements about the Agent Discoverer compare the loops above with these closed
  forms. \<open>failed_polls m c\<close> is the number of polls of \<open>c\<close>, among the first \<open>m\<close>,
  that come before the first one reporting \<^verbatim>\<open>running\<close>.
\<close>

definition failed_polls :: "nat \<Rightarrow> container \<Rightarrow> nat" where
  "failed_polls m c = length (takeWhile (\<lambda>i. status (reloads c i) \<noteq> ''running'') [0..<m])"

text \<open>The calls made while polling one container: a reload, and a sleep after each poll that failed.\<close>

definition poll_events :: "container \<Rightarrow> event list" where
  "poll_events c =
     concat (replicate (failed_polls 20 c) [ContainerReload (cname c), Sleep 2]) @
     (if failed_polls 20 c < 20 then [ContainerReload (cname c)] else [])"

text \<open>The attributes the last poll left in the container object.\<close>

definition last_report :: "container \<Rightarrow> attrs" where
  "last_report c = reloads c (min (failed_polls 20 c) 19)"

text \<open>The first non-empty address among the attached networks, the empty string when there is none.\<close>

definition first_address :: "(string \<times> net_data) list \<Rightarrow> string" where
  "first_address nets =
     (case filter (\<lambda>a. a \<noteq> []) (List.map_filter (\<lambda>(_, d). d ''IPAddress'') nets) of
        [] \<Rightarrow> [] | a # _ \<Rightarrow> a)"

section \<open>Example runs\<close>

text \<open>Concrete inputs, used to evaluate the definitions.\<close>

definition no_attrs :: attrs where
  "no_attrs = \<lparr>status = ''created'', networks = [], config_env = [], ip_address = []\<rparr>"

definition quiet_world :: world where
  "quiet_world =
     \<lparr>containers_list_running = [],
      containers_list_all_cleanup = [],
      images_list = [],
      volumes_list = [],
      prune_builds_raises = None,
      networks_list = [],
      containers_list_all_agents = [],
      containers_list_all_controller = [],
      which = (\<lambda>_. None),
      yaml_safe_load = (\<lambda>_. Inr (YMap [])),
      mkdtemp = ''/tmp/tmpk'',
      spawn = (\<lambda>_ files. Some (0, files))\<rparr>"

definition empty_state :: state where
  "empty_state = \<lparr>fs = Map.empty, environ = Map.empty, trace = []\<rparr>"

text \<open>A state whose filesystem holds a compose file.\<close>

definition compose_state :: state where
  "compose_state = \<lparr>fs = [''docker-compose.yml'' \<mapsto> File ''services: ...''], environ = Map.empty, trace = []\<rparr>"



text \<open>
  Compose documents: the specification's example, one with two agent services, one
  without an agent service; a document whose \<^verbatim>\<open>services\<close> entry is null (the file
  \<^verbatim>\<open>services:\<close>), an empty document, a document that is a list, and one with the
  service key \<^verbatim>\<open>8080\<close>.
\<close>

definition example_yaml :: "string \<Rightarrow> exc + yaml" where
  "example_yaml txt =
     Inr (YMap [(YStr ''services'',
                 YMap [(YStr ''jenkins-controller'', YMap []), (YStr ''jenkins-agent'', YMap [])])])"

definition two_agents_yaml :: "string \<Rightarrow> exc + yaml" where
  "two_agents_yaml txt =
     Inr (YMap [(YStr ''services'',
                 YMap [(YStr ''agent-a'', YMap []), (YStr ''agent-b'', YMap []), (YStr ''jenkins'', YMap [])])])"






text \<open>Containers, images, volumes and networks of the example runs.\<close>

definition mk_container :: "string \<Rightarrow> exc option \<Rightarrow> exc option \<Rightarrow> container" where
  "mk_container n stop_r remove_r =
     \<lparr>cname = n, cattrs = no_attrs, stop_raises = stop_r, remove_raises = remove_r,
      reloads = (\<lambda>_. no_attrs)\<rparr>"

text \<open>
  A runtime where some removals fail with an \<open>APIError\<close>, and which has a reserved
  network next to a user-defined one.
\<close>

definition busy_world :: world where
  "busy_world = quiet_world
     \<lparr>containers_list_running := [mk_container ''agent-1'' None None, mk_container ''db'' (Some APIError) None],
      containers_list_all_cleanup := [mk_container ''agent-1'' None (Some APIError), mk_container ''db'' None None],
      images_list := [\<lparr>image_id = ''sha256:1'', image_remove_raises = Some APIError\<rparr>],
      volumes_list := [\<lparr>volume_name = ''jenkins_home'', volume_remove_raises = None\<rparr>],
      prune_builds_raises := Some APIError,
      networks_list := [\<lparr>network_name = ''bridge'', network_remove_raises = None\<rparr>,
                        \<lparr>network_name = ''jenkins_net'', network_remove_raises = None\<rparr>]\<rparr>"

text \<open>
  A runtime where stopping the first container raises an exception that is not an
  \<open>APIError\<close>: the HTTP read of the SDK times out.
\<close>

definition timeout_world :: world where
  "timeout_world = quiet_world
     \<lparr>containers_list_running :=
        [mk_container ''agent-1'' (Some (OtherException ''requests.exceptions.ReadTimeout'')) None,
         mk_container ''db'' None None]\<rparr>"

text \<open>Command lines of the example runs.\<close>

definition missing_file_args :: args where
  "missing_file_args = \<lparr>clean = True, compose_file = ''missing.yml'', num_agents = 1\<rparr>"

definition two_agents_args :: args where
  "two_agents_args = \<lparr>clean = True, compose_file = ''docker-compose.yml'', num_agents = 2\<rparr>"

definition zero_agents_missing_file_args :: args where
  "zero_agents_missing_file_args = \<lparr>clean = True, compose_file = ''missing.yml'', num_agents = 0\<rparr>"

text \<open>
  A machine where \<^verbatim>\<open>uv\<close> is installed, the compose file is the specification's example,
  \<^verbatim>\<open>ssh-keygen\<close> writes the two key files, and every \<^verbatim>\<open>docker\<close> command fails with
  exit code 1; and one where \<^verbatim>\<open>ssh-keygen\<close> itself fails.
\<close>

definition setup_world :: world where
  "setup_world = quiet_world
     \<lparr>which := (\<lambda>_. Some ''/usr/bin/uv''),
      yaml_safe_load := example_yaml,
      spawn := (\<lambda>argv files.
         if take 1 argv = [''ssh-keygen'']
         then Some (0, files(''/tmp/tmpk/id_ed25519'' \<mapsto> File ''PRIVATE'',
                             ''/tmp/tmpk/id_ed25519.pub'' \<mapsto> File ''PUBLIC''))
         else if take 1 argv = [''docker''] then Some (1, files)
         else Some (0, files))\<rparr>"

definition keygen_fails_world :: world where
  "keygen_fails_world = quiet_world
     \<lparr>spawn := (\<lambda>argv files. Some (1, files(''/tmp/tmpk/id_ed25519'' \<mapsto> File ''PARTIAL'')))\<rparr>"

text \<open>A template engine and a state that holds a template, for the renderer.\<close>

definition demo_render :: "string \<Rightarrow> agent list \<Rightarrow> exc + string" where
  "demo_render template agents =
     Inr (template @ concat (map (\<lambda>a. name a @ ''='' @ ip a @ '';'') agents))"

definition template_state :: state where
  "template_state =
     \<lparr>fs = [''jenkins'' \<mapsto> Dir, ''jenkins/casc.yaml'' \<mapsto> File ''agents:'',
             ''jenkins/casc.generated.yaml'' \<mapsto> File ''old''],
      environ = Map.empty, trace = []\<rparr>"

text \<open>
  Three containers for the Agent Discoverer: an agent that reports \<^verbatim>\<open>running\<close> at its
  second poll, attached to a network without address and to one with an address; an agent
  that never runs and has no network; and a container of another service.
\<close>

definition running_attrs :: attrs where
  "running_attrs =
     \<lparr>status = ''running'',
      networks = [(''bridge'', [''IPAddress'' \<mapsto> []]), (''jenkins_net'', [''IPAddress'' \<mapsto> ''10.0.0.2''])],
      config_env = [], ip_address = []\<rparr>"

definition quick_agent :: container where
  "quick_agent =
     \<lparr>cname = ''agent-1'', cattrs = no_attrs, stop_raises = None, remove_raises = None,
      reloads = (\<lambda>i. if i = 0 then no_attrs else running_attrs)\<rparr>"

definition slow_agent :: container where
  "slow_agent = mk_container ''agent-2'' None None"

definition discover_world :: world where
  "discover_world = quiet_world
     \<lparr>containers_list_all_agents := [quick_agent, mk_container ''db'' None None, slow_agent]\<rparr>"

text \<open>Command lines with a negative agent count.\<close>

definition negative_args :: args where
  "negative_args = \<lparr>clean = True, compose_file = ''docker-compose.yml'', num_agents = - 1\<rparr>"

definition negative_missing_file_args :: args where
  "negative_missing_file_args = \<lparr>clean = True, compose_file = ''missing.yml'', num_agents = - 1\<rparr>"

section \<open>Predicates on effects, for the proofs\<close>

text \<open>A program that leaves the filesystem as it is, and one that only appends to the trace.\<close>

definition keeps_fs :: "'a prog \<Rightarrow> bool" where
  "keeps_fs p = (\<forall>s. fs (snd (p s)) = fs s)"

definition appends :: "'a prog \<Rightarrow> bool" where
  "appends p = (\<forall>s. prefix (trace s) (trace (snd (p s))))"

section \<open>Running the effects\<close>

declare str_nat.simps [simp del]

lemma seq_emit: "seq (emit e) k s = k (s\<lparr>trace := trace s @ [e]\<rparr>)"
  by (simp add: seq_def bnd_def emit_def)

lemma seq_logging_info:
  "seq (logging_info f as) k s = k (s\<lparr>trace := trace s @ [Log INFO f as]\<rparr>)"
  by (simp add: logging_info_def seq_emit)

lemma seq_logging_error:
  "seq (logging_error f as) k s = k (s\<lparr>trace := trace s @ [Log ERROR f as]\<rparr>)"
  by (simp add: logging_error_def seq_emit)

lemma logging_info_run:
  "logging_info f as s = (Inr (), s\<lparr>trace := trace s @ [Log INFO f as]\<rparr>)"
  by (simp add: logging_info_def emit_def)

lemma find_append:
  "find P (xs @ ys) = (case find P xs of None \<Rightarrow> find P ys | Some x \<Rightarrow> Some x)"
  by (induction xs) auto

section \<open>Service names\<close>

lemma bnd_lift_Inr: "bnd (lift (Inr x)) f = f x"
  by (rule ext) (simp add: bnd_def lift_def)


lemma is_agent_name_nonempty: "is_agent_name s \<Longrightarrow> s \<noteq> []"
  unfolding is_agent_name_def by auto

lemma is_controller_name_nonempty: "is_controller_name s \<Longrightarrow> s \<noteq> []"
  unfolding is_controller_name_def by auto

text \<open>On names that are strings, the loop keeps the last name that matches, for each of the two criteria.\<close>

lemma scan_services_str:
  "scan_services (YStr x # rest) (a0, c0) =
     scan_services rest
       (if is_agent_name x then YStr x else a0, if is_controller_name x then YStr x else c0)"
  by (simp add: is_agent_name_def is_controller_name_def)

lemma scan_services_find:
  "scan_services (map YStr xs) (a0, c0) =
     Inr (case find is_agent_name (rev xs) of None \<Rightarrow> a0 | Some a \<Rightarrow> YStr a,
          case find is_controller_name (rev xs) of None \<Rightarrow> c0 | Some c \<Rightarrow> YStr c)"
proof (induction xs arbitrary: a0 c0)
  case Nil
  show ?case by simp
next
  case (Cons x xs)
  have "scan_services (map YStr (x # xs)) (a0, c0) =
          scan_services (map YStr xs)
            (if is_agent_name x then YStr x else a0, if is_controller_name x then YStr x else c0)"
    by (simp only: list.map scan_services_str)
  then show ?case
    by (simp add: Cons.IH find_append split: option.splits)
qed




lemma find_rev_unique: "filter P xs = [a] \<Longrightarrow> find P (rev xs) = Some a"
proof (induction xs)
  case Nil
  then show ?case by simp
next
  case (Cons x xs)
  show ?case
  proof (cases "P x")
    case True
    with Cons.prems have "filter P xs = []" and "x = a" by simp_all
    then have "find P (rev xs) = None"
      by (simp add: find_None_iff filter_empty_conv)
    with True \<open>x = a\<close> show ?thesis by (simp add: find_append)
  next
    case False
    with Cons show ?thesis by (simp add: find_append)
  qed
qed

text \<open>The reader up to the loop, for a file that is read and parsed.\<close>

lemma get_service_names_read:
  assumes "fs s path = Some (File txt)"
      and "load txt = Inr compose"
  shows "get_service_names load path s =
     bnd (lift (declared_services compose)) (\<lambda>services.
     bnd (lift (scan_services services (YNone, YNone))) (\<lambda>(agent_service_name, controller_service_name).
       if \<not> py_truthy agent_service_name \<or> \<not> py_truthy controller_service_name
       then seq (logging_error ''Could not find required service names in docker-compose.yml.'' [])
                (sys_exit 1)
       else seq (logging_info ''Agent service: %s, Controller service: %s''
                   [log_arg agent_service_name, log_arg controller_service_name])
                (ret (agent_service_name, controller_service_name))))
       (s\<lparr>trace := trace s @ [Log INFO ''Reading service names from compose file: %s'' [S path]]\<rparr>)"
  using assms
  by (simp add: get_service_names_def seq_logging_info bnd_def [of "read_text _"] read_text_def
      bnd_lift_Inr)

lemma get_service_names_found:
  assumes "fs s path = Some (File txt)"
      and "load txt = Inr compose"
      and "declared_services compose = Inr (map YStr names)"
      and "find is_agent_name (rev names) = Some a"
      and "find is_controller_name (rev names) = Some c"
  shows "get_service_names load path s =
     (Inr (YStr a, YStr c), s\<lparr>trace := trace s @
        [Log INFO ''Reading service names from compose file: %s'' [S path],
         Log INFO ''Agent service: %s, Controller service: %s'' [S a, S c]]\<rparr>)"
proof -
  from assms(4) have "is_agent_name a" by (auto simp: find_Some_iff)
  then have a: "a \<noteq> []" by (rule is_agent_name_nonempty)
  from assms(5) have "is_controller_name c" by (auto simp: find_Some_iff)
  then have c: "c \<noteq> []" by (rule is_controller_name_nonempty)
  show ?thesis
    using assms(3,4,5) a c
    by (simp add: get_service_names_read [where load = load, OF assms(1,2)] bnd_lift_Inr scan_services_find
        seq_logging_info ret_def)
qed




section \<open>Best-effort loops\<close>

lemma try_call_caught:
  assumes "r = None \<or> r = Some APIError"
  shows "except_APIError (sdk_call e r) (logging_warning f as) s =
     (Inr (), s\<lparr>trace := trace s @ e # (if r = None then [] else [Log WARNING f as])\<rparr>)"
  using assms
  by (auto simp: except_APIError_def sdk_call_def seq_emit ret_def raise_def
      logging_warning_def emit_def)

lemma try_call_escalates:
  assumes "r = Some x" and "x \<noteq> APIError"
  shows "except_APIError (sdk_call e r) handler s = (Inl x, s\<lparr>trace := trace s @ [e]\<rparr>)"
  using assms
  by (cases x) (simp_all add: except_APIError_def sdk_call_def seq_emit raise_def)

lemma for_each_try_guarded:
  assumes "\<forall>x\<in>set xs. g x \<longrightarrow> r x = None \<or> r x = Some APIError"
  shows "for_each xs (\<lambda>x. if g x then except_APIError (sdk_call (e x) (r x)) (logging_warning f (as x)) else ret ()) s =
     (Inr (), s\<lparr>trace := trace s @
        concat (map (\<lambda>x. if g x then e x # (if r x = None then [] else [Log WARNING f (as x)]) else []) xs)\<rparr>)"
  using assms
proof (induction xs arbitrary: s)
  case Nil
  show ?case by (simp add: ret_def)
next
  case (Cons x xs)
  from Cons.prems have rest: "\<forall>x\<in>set xs. g x \<longrightarrow> r x = None \<or> r x = Some APIError" by simp
  show ?case
  proof (cases "g x")
    case True
    with Cons.prems have "r x = None \<or> r x = Some APIError" by simp
    with True show ?thesis
      by (simp add: seq_def bnd_def try_call_caught Cons.IH [OF rest])
  next
    case False
    then show ?thesis
      by (simp add: seq_def bnd_def ret_def Cons.IH [OF rest])
  qed
qed

lemma seq_for_each_try_guarded:
  assumes "\<forall>x\<in>set xs. g x \<longrightarrow> r x = None \<or> r x = Some APIError"
  shows "seq (for_each xs (\<lambda>x. if g x then except_APIError (sdk_call (e x) (r x)) (logging_warning f (as x)) else ret ())) k s =
     k (s\<lparr>trace := trace s @
        concat (map (\<lambda>x. if g x then e x # (if r x = None then [] else [Log WARNING f (as x)]) else []) xs)\<rparr>)"
  by (simp add: seq_def bnd_def for_each_try_guarded [OF assms])

lemma seq_for_each_try:
  assumes "\<forall>x\<in>set xs. r x = None \<or> r x = Some APIError"
  shows "seq (for_each xs (\<lambda>x. except_APIError (sdk_call (e x) (r x)) (logging_warning f (as x)))) k s =
     k (s\<lparr>trace := trace s @
        concat (map (\<lambda>x. e x # (if r x = None then [] else [Log WARNING f (as x)])) xs)\<rparr>)"
  using seq_for_each_try_guarded [where g = "\<lambda>_. True", of xs r e f as k s] assms by simp

lemma seq_try_call_caught:
  assumes "r = None \<or> r = Some APIError"
  shows "seq (except_APIError (sdk_call e r) (logging_warning f as)) k s =
     k (s\<lparr>trace := trace s @ e # (if r = None then [] else [Log WARNING f as])\<rparr>)"
  by (simp add: seq_def bnd_def try_call_caught [OF assms])

text \<open>The whole trace of \<open>cleanup\<close> when every failure is an \<open>APIError\<close>.\<close>

lemma cleanup_caught:
  assumes stop: "\<forall>c\<in>set (containers_list_running w). stop_raises c = None \<or> stop_raises c = Some APIError"
      and remove: "\<forall>c\<in>set (containers_list_all_cleanup w). remove_raises c = None \<or> remove_raises c = Some APIError"
      and images: "\<forall>i\<in>set (images_list w). image_remove_raises i = None \<or> image_remove_raises i = Some APIError"
      and volumes: "\<forall>v\<in>set (volumes_list w). volume_remove_raises v = None \<or> volume_remove_raises v = Some APIError"
      and prune: "prune_builds_raises w = None \<or> prune_builds_raises w = Some APIError"
      and nets: "\<forall>n\<in>set (networks_list w). network_name n \<notin> set [''bridge'', ''host'', ''none''] \<longrightarrow>
                   network_remove_raises n = None \<or> network_remove_raises n = Some APIError"
  shows "cleanup w s =
     (Inr (), s\<lparr>trace := trace s @
        [Log INFO ''Stopping all running containers...'' []] @
        concat (map (\<lambda>c. ContainerStop (cname c) #
                  (if stop_raises c = None then [] else [Log WARNING ''Failed to stop container %s'' [S (cname c)]]))
                (containers_list_running w)) @
        [Log INFO ''Removing all containers...'' []] @
        concat (map (\<lambda>c. ContainerRemove (cname c) #
                  (if remove_raises c = None then [] else [Log WARNING ''Failed to remove container %s'' [S (cname c)]]))
                (containers_list_all_cleanup w)) @
        [Log INFO ''Removing all unused images...'' []] @
        concat (map (\<lambda>i. ImageRemove (image_id i) #
                  (if image_remove_raises i = None then [] else [Log WARNING ''Failed to remove image %s'' [S (image_id i)]]))
                (images_list w)) @
        [Log INFO ''Removing all unused volumes...'' []] @
        concat (map (\<lambda>v. VolumeRemove (volume_name v) #
                  (if volume_remove_raises v = None then [] else [Log WARNING ''Failed to remove volume %s'' [S (volume_name v)]]))
                (volumes_list w)) @
        [Log INFO ''Cleaning up build cache...'' [], PruneBuilds] @
        (if prune_builds_raises w = None then [] else [Log WARNING ''Failed to prune build cache'' []]) @
        [Log INFO ''Removing all unused networks...'' []] @
        concat (map (\<lambda>n. if network_name n \<notin> set [''bridge'', ''host'', ''none'']
                          then NetworkRemove (network_name n) #
                            (if network_remove_raises n = None then []
                             else [Log WARNING ''Failed to remove network %s'' [S (network_name n)]])
                          else [])
                (networks_list w)) @
        [Log INFO ''Docker cleanup complete.'' []]\<rparr>)"
  unfolding cleanup_def
  apply (simp only: seq_logging_info)
  apply (simp only: seq_for_each_try [OF stop] seq_logging_info)
  apply (simp only: seq_for_each_try [OF remove] seq_logging_info)
  apply (simp only: seq_for_each_try [OF images] seq_logging_info)
  apply (simp only: seq_for_each_try [OF volumes] seq_logging_info)
  apply (simp only: seq_try_call_caught [OF prune] seq_logging_info)
  apply (simp only: seq_for_each_try_guarded [OF nets])
  apply (simp add: logging_info_def emit_def)
  done

lemma cleanup_quiet_world:
  "cleanup quiet_world s =
     (Inr (), s\<lparr>trace := trace s @
        [Log INFO ''Stopping all running containers...'' [],
         Log INFO ''Removing all containers...'' [],
         Log INFO ''Removing all unused images...'' [],
         Log INFO ''Removing all unused volumes...'' [],
         Log INFO ''Cleaning up build cache...'' [],
         PruneBuilds,
         Log INFO ''Removing all unused networks...'' [],
         Log INFO ''Docker cleanup complete.'' []]\<rparr>)"
  by (simp add: cleanup_def quiet_world_def seq_def bnd_def logging_info_def emit_def
      except_APIError_def sdk_call_def ret_def)

lemma cleanup_busy_world:
  "cleanup busy_world s =
     (Inr (), s\<lparr>trace := trace s @
        [Log INFO ''Stopping all running containers...'' [],
         ContainerStop ''agent-1'',
         ContainerStop ''db'', Log WARNING ''Failed to stop container %s'' [S ''db''],
         Log INFO ''Removing all containers...'' [],
         ContainerRemove ''agent-1'', Log WARNING ''Failed to remove container %s'' [S ''agent-1''],
         ContainerRemove ''db'',
         Log INFO ''Removing all unused images...'' [],
         ImageRemove ''sha256:1'', Log WARNING ''Failed to remove image %s'' [S ''sha256:1''],
         Log INFO ''Removing all unused volumes...'' [],
         VolumeRemove ''jenkins_home'',
         Log INFO ''Cleaning up build cache...'' [],
         PruneBuilds, Log WARNING ''Failed to prune build cache'' [],
         Log INFO ''Removing all unused networks...'' [],
         NetworkRemove ''jenkins_net'',
         Log INFO ''Docker cleanup complete.'' []]\<rparr>)"
  by (simp add: cleanup_def busy_world_def quiet_world_def mk_container_def seq_def bnd_def
      logging_info_def logging_warning_def emit_def except_APIError_def sdk_call_def ret_def raise_def)

section \<open>The control flow of the Orchestrator\<close>

lemma keeps_fsI: "(\<And>s. fs (snd (p s)) = fs s) \<Longrightarrow> keeps_fs p"
  by (simp add: keeps_fs_def)

lemma keeps_fsD: "keeps_fs p \<Longrightarrow> fs (snd (p s)) = fs s"
  by (simp add: keeps_fs_def)

lemma keeps_fs_ret: "keeps_fs (ret x)"
  by (simp add: keeps_fs_def ret_def)

lemma keeps_fs_raise: "keeps_fs (raise e)"
  by (simp add: keeps_fs_def raise_def)

lemma keeps_fs_emit: "keeps_fs (emit e)"
  by (simp add: keeps_fs_def emit_def)

lemma keeps_fs_logging:
  "keeps_fs (logging_info f as)" "keeps_fs (logging_warning f as)" "keeps_fs (logging_error f as)"
  by (simp_all add: logging_info_def logging_warning_def logging_error_def keeps_fs_emit)

lemma keeps_fs_bnd:
  assumes "keeps_fs m" and "\<And>x. keeps_fs (f x)"
  shows "keeps_fs (bnd m f)"
proof (rule keeps_fsI)
  fix s
  show "fs (snd (bnd m f s)) = fs s"
  proof (cases "m s")
    case (Pair r s')
    with assms(1) have s': "fs s' = fs s"
      by (metis keeps_fsD snd_conv)
    show ?thesis
    proof (cases r)
      case (Inl e)
      with Pair s' show ?thesis by (simp add: bnd_def)
    next
      case (Inr x)
      with Pair s' assms(2) [of x] show ?thesis
        by (simp add: bnd_def keeps_fs_def)
    qed
  qed
qed

lemma keeps_fs_seq: "keeps_fs m \<Longrightarrow> keeps_fs k \<Longrightarrow> keeps_fs (seq m k)"
  by (simp add: seq_def keeps_fs_bnd)

lemma keeps_fs_for_each: "(\<And>x. keeps_fs (body x)) \<Longrightarrow> keeps_fs (for_each xs body)"
  by (induction xs) (simp_all add: keeps_fs_ret keeps_fs_seq)

lemma keeps_fs_sdk_call: "keeps_fs (sdk_call e r)"
  by (cases r) (simp_all add: sdk_call_def keeps_fs_seq keeps_fs_emit keeps_fs_ret keeps_fs_raise)

lemma keeps_fs_except: 
  assumes "keeps_fs body" and "keeps_fs handler"
  shows "keeps_fs (except_APIError body handler)"
proof (rule keeps_fsI)
  fix s
  show "fs (snd (except_APIError body handler s)) = fs s"
  proof (cases "body s")
    case (Pair r s')
    with assms(1) have s': "fs s' = fs s"
      by (metis keeps_fsD snd_conv)
    from assms(2) have h: "fs (snd (handler s')) = fs s'"
      by (rule keeps_fsD)
    show ?thesis
      using Pair s' h
      by (simp add: except_APIError_def split: sum.splits exc.splits)
  qed
qed

lemma keeps_fs_if: "keeps_fs p \<Longrightarrow> keeps_fs q \<Longrightarrow> keeps_fs (if b then p else q)"
  by simp

lemma keeps_fs_cleanup: "keeps_fs (cleanup w)"
  unfolding cleanup_def
  by (intro keeps_fs_seq keeps_fs_for_each keeps_fs_except keeps_fs_if keeps_fs_sdk_call
      keeps_fs_logging keeps_fs_ret)

lemma cleanup_fs: "cleanup w s = (r, s') \<Longrightarrow> fs s' = fs s"
  using keeps_fs_cleanup [of w] by (metis keeps_fsD snd_conv)

lemma main_clean:
  assumes "clean a" and "num_agents a \<noteq> 0"
      and "cleanup w (s\<lparr>trace := trace s @ [Log INFO ''Starting Jenkins Docker Manager main function.'' []]\<rparr>) = (Inr (), s')"
  shows "main w a s =
     (if fs s (compose_file a) \<noteq> None
      then create_jenkins_system w (compose_file a) (num_agents a)
             (s'\<lparr>trace := trace s' @ [Log INFO ''Cleanup complete. Proceeding to Jenkins system setup...'' []]\<rparr>)
      else (Inl (SystemExit 1),
            s'\<lparr>trace := trace s' @
              [Log INFO ''Cleanup complete. Proceeding to Jenkins system setup...'' [],
               Log ERROR ''Compose file %s does not exist. Exiting.'' [S (compose_file a)]]\<rparr>))"
proof -
  from assms(3) have "fs s' = fs s"
    by (auto dest: cleanup_fs)
  then show ?thesis
    using assms
    by (simp add: main_def seq_logging_info seq_logging_error seq_def [of "cleanup w"] bnd_def
        path_exists_def sys_exit_def raise_def)
qed

lemma main_missing_file:
  assumes "clean a" and "num_agents a \<noteq> 0" and "fs s (compose_file a) = None"
      and "cleanup w (s\<lparr>trace := trace s @ [Log INFO ''Starting Jenkins Docker Manager main function.'' []]\<rparr>) = (Inr (), s')"
  shows "main w a s =
     (Inl (SystemExit 1),
      s'\<lparr>trace := trace s' @
        [Log INFO ''Cleanup complete. Proceeding to Jenkins system setup...'' [],
         Log ERROR ''Compose file %s does not exist. Exiting.'' [S (compose_file a)]]\<rparr>)"
  using assms by (simp add: main_clean)

lemma create_no_uv:
  assumes "\<not> truthy (which w ''uv'')"
  shows "create_jenkins_system w path n s =
     (Inl (SystemExit 1), s\<lparr>trace := trace s @
        [Log INFO ''Creating Jenkins system with compose file: %s and agent count: %d'' [S path, I n],
         Log INFO (CHR 0x27 # ''uv'' @ CHR 0x27 # '' check started.'') [],
         Log INFO (CHR 0x27 # ''uv'' @ CHR 0x27 # '' is not installed. Please install it manually.'') []]\<rparr>)"
  using assms
  by (simp add: create_jenkins_system_def check_uv_def seq_logging_info seq_def [of "seq _ _"] bnd_def
      sys_exit_def raise_def)

section \<open>Key generation in a temporary directory\<close>

lemma rmtree_gone: "rmtree d files d = None" "prefix (d @ ''/'') p \<Longrightarrow> rmtree d files p = None"
  by (simp_all add: rmtree_def)

lemma with_TemporaryDirectory_fs:
  "fs (snd (with_TemporaryDirectory d body s)) =
     rmtree d (fs (snd (body d (s\<lparr>fs := (fs s)(d \<mapsto> Dir)\<rparr>))))"
  by (simp add: with_TemporaryDirectory_def split: prod.splits)

lemma setup_ssh_key_fs:
  "\<exists>files. fs (snd (setup_ssh_key w s)) = rmtree (mkdtemp w) files"
  by (simp add: setup_ssh_key_def seq_logging_info with_TemporaryDirectory_fs) (rule exI, rule refl)

lemma subprocess_run_fails:
  assumes "spawn w argv (fs s) = Some (rc, files)" and "rc \<noteq> 0"
  shows "subprocess_run w argv s =
     (Inl (CalledProcessError rc argv), s\<lparr>fs := files, trace := trace s @ [Run argv]\<rparr>)"
  using assms by (simp add: subprocess_run_def run_process_def seq_emit)

lemma subprocess_run_ok:
  assumes "spawn w argv (fs s) = Some (0, files)"
  shows "subprocess_run w argv s = (Inr (), s\<lparr>fs := files, trace := trace s @ [Run argv]\<rparr>)"
  using assms by (simp add: subprocess_run_def run_process_def seq_emit)

lemma setup_ssh_key_keygen_fails:
  assumes "spawn w [''ssh-keygen'', ''-t'', ''ed25519'', ''-N'', [], ''-f'', os_path_join (mkdtemp w) ''id_ed25519'']
             ((fs s)(mkdtemp w \<mapsto> Dir)) = Some (rc, files)"
      and "rc \<noteq> 0"
  shows "setup_ssh_key w s =
     (Inl (CalledProcessError rc
             [''ssh-keygen'', ''-t'', ''ed25519'', ''-N'', [], ''-f'', os_path_join (mkdtemp w) ''id_ed25519'']),
      s\<lparr>fs := rmtree (mkdtemp w) files,
        trace := trace s @
          [Log INFO ''Generating SSH key pair.'' [],
           Run [''ssh-keygen'', ''-t'', ''ed25519'', ''-N'', [], ''-f'', os_path_join (mkdtemp w) ''id_ed25519'']]\<rparr>)"
  using assms
  by (simp add: setup_ssh_key_def seq_logging_info with_TemporaryDirectory_def Let_def
      seq_def [of "subprocess_run _ _"] bnd_def subprocess_run_fails)

lemma setup_ssh_key_ok:
  assumes "spawn w [''ssh-keygen'', ''-t'', ''ed25519'', ''-N'', [], ''-f'', os_path_join (mkdtemp w) ''id_ed25519'']
             ((fs s)(mkdtemp w \<mapsto> Dir)) = Some (0, files)"
      and "files (os_path_join (mkdtemp w) ''id_ed25519'') = Some (File priv)"
      and "files (os_path_join (mkdtemp w) ''id_ed25519'' @ ''.pub'') = Some (File pub)"
  shows "setup_ssh_key w s =
     (Inr (priv, pub),
      s\<lparr>fs := rmtree (mkdtemp w) files,
        trace := trace s @
          [Log INFO ''Generating SSH key pair.'' [],
           Run [''ssh-keygen'', ''-t'', ''ed25519'', ''-N'', [], ''-f'', os_path_join (mkdtemp w) ''id_ed25519''],
           Log INFO ''Temporary SSH key directory %s deleted.'' [S (mkdtemp w)]]\<rparr>)"
  using assms
  by (simp add: setup_ssh_key_def seq_logging_info with_TemporaryDirectory_def Let_def
      seq_def [of "subprocess_run _ _"] bnd_def subprocess_run_ok read_text_def ret_def)

lemma key_path_tmpk: "os_path_join ''/tmp/tmpk'' ''id_ed25519'' = ''/tmp/tmpk/id_ed25519''"
  by (simp add: os_path_join_def suffix_def)

section \<open>Splitting the argument list\<close>

lemma template_path: "os_path_join ''jenkins'' ''casc.yaml'' = ''jenkins/casc.yaml''"
  by (simp add: os_path_join_def suffix_def)

lemma zip_halves:
  assumes "length argv = 2 * N"
  shows "map (\<lambda>(n, i). \<lparr>name = n, ip = i\<rparr>) (zip (take N argv) (drop N argv)) =
         map (\<lambda>i. \<lparr>name = argv ! i, ip = argv ! (N + i)\<rparr>) [0..<N]"
  using assms by (intro nth_equalityI) simp_all

lemma half_length: "length argv = 2 * N \<Longrightarrow> length argv div 2 = N"
  by simp

section \<open>Polling and address discovery\<close>

lemma failed_polls_0: "failed_polls 0 c = 0"
  by (simp add: failed_polls_def)

lemma failed_polls_Suc:
  "failed_polls (Suc m) c =
     (if status (reloads c 0) = ''running'' then 0
      else Suc (failed_polls m (c\<lparr>cattrs := reloads c 0, reloads := (\<lambda>i. reloads c (Suc i))\<rparr>)))"
proof -
  have "[0..<Suc m] = 0 # map Suc [0..<m]"
    by (simp add: upt_conv_Cons map_Suc_upt del: upt_Suc)
  then show ?thesis
    by (simp add: failed_polls_def takeWhile_map comp_def del: upt_Suc)
qed

lemma failed_polls_le: "failed_polls m c \<le> m"
proof -
  have "length (takeWhile P [0..<m]) \<le> length [0..<m]" for P
    by (rule length_takeWhile_le)
  then show ?thesis by (simp add: failed_polls_def)
qed

lemma poll_running_general:
  "\<exists>c'. poll_running m c s =
       (Inr c', s\<lparr>trace := trace s @
          concat (replicate (failed_polls m c) [ContainerReload (cname c), Sleep 2]) @
          (if failed_polls m c < m then [ContainerReload (cname c)] else [])\<rparr>)
     \<and> cname c' = cname c
     \<and> (0 < m \<longrightarrow> cattrs c' = reloads c (min (failed_polls m c) (m - 1)))"
proof (induction m arbitrary: c s)
  case 0
  show ?case by (simp add: ret_def failed_polls_0)
next
  case (Suc m)
  let ?c1 = "c\<lparr>cattrs := reloads c 0, reloads := (\<lambda>i. reloads c (Suc i))\<rparr>"
  let ?s1 = "s\<lparr>trace := trace s @ [ContainerReload (cname c)]\<rparr>"
  have reload: "container_reload c s = (Inr ?c1, ?s1)"
    by (simp add: container_reload_def seq_emit ret_def)
  show ?case
  proof (cases "status (reloads c 0) = ''running''")
    case True
    then show ?thesis
      by (simp add: bnd_def reload ret_def failed_polls_Suc)
  next
    case False
    let ?s2 = "?s1\<lparr>trace := trace ?s1 @ [Sleep 2]\<rparr>"
    from Suc.IH [of ?c1 ?s2] obtain c' where
      run: "poll_running m ?c1 ?s2 =
         (Inr c', ?s2\<lparr>trace := trace ?s2 @
            concat (replicate (failed_polls m ?c1) [ContainerReload (cname ?c1), Sleep 2]) @
            (if failed_polls m ?c1 < m then [ContainerReload (cname ?c1)] else [])\<rparr>)"
      and nm: "cname c' = cname ?c1"
      and at: "0 < m \<longrightarrow> cattrs c' = reloads ?c1 (min (failed_polls m ?c1) (m - 1))"
      by blast
    have step: "poll_running (Suc m) c s = poll_running m ?c1 ?s2"
      using False by (simp add: bnd_def reload seq_emit)
    have m0: "m = 0 \<Longrightarrow> c' = ?c1"
      using run by (simp add: ret_def)
    have attrs: "cattrs c' = reloads c (min (failed_polls (Suc m) c) m)"
    proof (cases m)
      case 0
      with m0 False show ?thesis by (simp add: failed_polls_Suc failed_polls_0)
    next
      case (Suc j)
      with at False show ?thesis by (simp add: failed_polls_Suc)
    qed
    have run': "poll_running m ?c1 (s\<lparr>trace := trace s @ [ContainerReload (cname c), Sleep 2]\<rparr>) =
         (Inr c', s\<lparr>trace := trace s @ [ContainerReload (cname c), Sleep 2] @
            concat (replicate (failed_polls m ?c1) [ContainerReload (cname c), Sleep 2]) @
            (if failed_polls m ?c1 < m then [ContainerReload (cname c)] else [])\<rparr>)"
      using run by simp
    have step': "poll_running (Suc m) c s =
         poll_running m ?c1 (s\<lparr>trace := trace s @ [ContainerReload (cname c), Sleep 2]\<rparr>)"
      using step by simp
    have "poll_running (Suc m) c s =
       (Inr c', s\<lparr>trace := trace s @
          concat (replicate (failed_polls (Suc m) c) [ContainerReload (cname c), Sleep 2]) @
          (if failed_polls (Suc m) c < Suc m then [ContainerReload (cname c)] else [])\<rparr>)"
      using False by (simp only: step' run') (simp add: failed_polls_Suc)
    with nm attrs show ?thesis by simp
  qed
qed

lemma str_or_empty_simps: "str_or_empty None = []" "str_or_empty (Some x) = x"
  by (simp_all add: str_or_empty_def)

lemma scan_networks_first:
  assumes "\<not> truthy ip0"
  shows "str_or_empty (scan_networks ds ip0) =
         (case filter (\<lambda>a. a \<noteq> []) (List.map_filter (\<lambda>d. d ''IPAddress'') ds) of
            [] \<Rightarrow> [] | a # _ \<Rightarrow> a)"
  using assms
proof (induction ds arbitrary: ip0)
  case Nil
  then show ?case by (cases ip0) (simp_all add: str_or_empty_simps)
next
  case (Cons d ds)
  show ?case
  proof (cases "d ''IPAddress''")
    case None
    have "\<not> truthy None" by simp
    from Cons.IH [OF this] None show ?thesis by simp
  next
    case (Some a)
    show ?thesis
    proof (cases "a = []")
      case True
      have "\<not> truthy (Some [])" by simp
      from Cons.IH [OF this] Some True show ?thesis by simp
    next
      case False
      with Some show ?thesis by (simp add: str_or_empty_simps)
    qed
  qed
qed

lemma map_filter_snd:
  "List.map_filter (\<lambda>d. d ''IPAddress'') (map snd nets) = List.map_filter (\<lambda>(_, d). d ''IPAddress'') nets"
  by (induction nets) (auto split: option.splits)

lemma container_ip_first_address: "container_ip c = first_address (networks (cattrs c))"
proof (cases "networks (cattrs c) = []")
  case True
  then show ?thesis
    by (simp add: container_ip_def first_address_def str_or_empty_simps)
next
  case False
  have n: "\<not> truthy None" by simp
  from False scan_networks_first [OF n, of "map snd (networks (cattrs c))"] show ?thesis
    by (simp add: container_ip_def first_address_def Let_def map_filter_snd)
qed

lemma discover_general:
  "discover cs (ns, is) s =
     (Inr (ns @ map cname cs, is @ map (\<lambda>c. first_address (networks (last_report c))) cs),
      s\<lparr>trace := trace s @ concat (map poll_events cs)\<rparr>)"
proof (induction cs arbitrary: ns "is" s)
  case Nil
  show ?case by (simp add: ret_def)
next
  case (Cons c cs)
  from poll_running_general [of 20 c s] obtain c' where
    run: "poll_running 20 c s = (Inr c', s\<lparr>trace := trace s @ poll_events c\<rparr>)"
    and nm: "cname c' = cname c"
    and at: "cattrs c' = last_report c"
    by (auto simp: poll_events_def last_report_def)
  show ?case
    by (simp add: bnd_def run nm at container_ip_first_address Cons.IH)
qed

lemma subprocess_run_trace: "trace (snd (subprocess_run w argv s)) = trace s @ [Run argv]"
  by (simp add: subprocess_run_def run_process_def seq_emit split: option.splits prod.splits)

lemma count_list_pairs: "a \<noteq> b \<Longrightarrow> count_list (concat (replicate k [a, b])) a = k"
  by (induction k) simp_all

lemma count_poll_events:
  "count_list (poll_events c) (ContainerReload (cname c)) = min (Suc (failed_polls 20 c)) 20"
  using failed_polls_le [of 20 c]
  by (simp add: poll_events_def count_list_pairs)

lemma failed_polls_early:
  assumes "i < m" and "status (reloads c i) = ''running''"
  shows "failed_polls m c \<le> i"
proof (rule ccontr)
  assume "\<not> failed_polls m c \<le> i"
  then have lt: "i < length (takeWhile (\<lambda>i. status (reloads c i) \<noteq> ''running'') [0..<m])"
    by (simp add: failed_polls_def)
  then have "takeWhile (\<lambda>i. status (reloads c i) \<noteq> ''running'') [0..<m] ! i = [0..<m] ! i"
    by (rule takeWhile_nth)
  with assms(1) have "takeWhile (\<lambda>i. status (reloads c i) \<noteq> ''running'') [0..<m] ! i = i"
    by simp
  with lt have "i \<in> set (takeWhile (\<lambda>i. status (reloads c i) \<noteq> ''running'') [0..<m])"
    by (metis nth_mem)
  then have "status (reloads c i) \<noteq> ''running''"
    by (rule set_takeWhileD [THEN conjunct2])
  with assms(2) show False by simp
qed

lemma collect_agents_run:
  "collect_agents_and_generate_casc w svc s =
     subprocess_run w
       ([''python3'', ''jenkins/generate_casc.py''] @
        map cname (filter (\<lambda>c. sublist svc (cname c)) (containers_list_all_agents w)) @
        map (\<lambda>c. first_address (networks (last_report c)))
          (filter (\<lambda>c. sublist svc (cname c)) (containers_list_all_agents w)))
       (s\<lparr>trace := trace s @
          [Log INFO ''Collecting agent names and IPs for service %s.'' [S svc]] @
          concat (map poll_events (filter (\<lambda>c. sublist svc (cname c)) (containers_list_all_agents w))) @
          [Log INFO ''Agent names: %s, Agent IPs: %s''
             [L (map cname (filter (\<lambda>c. sublist svc (cname c)) (containers_list_all_agents w))),
              L (map (\<lambda>c. first_address (networks (last_report c)))
                   (filter (\<lambda>c. sublist svc (cname c)) (containers_list_all_agents w)))]]\<rparr>)"
  by (simp add: collect_agents_and_generate_casc_def seq_logging_info Let_def bnd_def
      discover_general)

lemma upt_20: "[0..<20] = [0, 1, 2, 3, 4, 5, 6, 7, 8, 9, 10, 11, 12, 13, 14, 15, 16, 17, 18, 19]"
  by (simp add: upt_rec)

section \<open>The trace only grows\<close>

lemma appendsI: "(\<And>s. prefix (trace s) (trace (snd (p s)))) \<Longrightarrow> appends p"
  by (simp add: appends_def)

lemma appendsD: "appends p \<Longrightarrow> prefix (trace s) (trace (snd (p s)))"
  by (simp add: appends_def)

lemma appends_ret: "appends (ret x)"
  by (simp add: appends_def ret_def)

lemma appends_raise: "appends (raise e)"
  by (simp add: appends_def raise_def)

lemma appends_emit: "appends (emit e)"
  by (simp add: appends_def emit_def)

lemma appends_logging:
  "appends (logging_info f as)" "appends (logging_warning f as)" "appends (logging_error f as)"
  by (simp_all add: logging_info_def logging_warning_def logging_error_def appends_emit)

lemma appends_bnd:
  assumes "appends m" and "\<And>x. appends (f x)"
  shows "appends (bnd m f)"
proof (rule appendsI)
  fix s
  show "prefix (trace s) (trace (snd (bnd m f s)))"
  proof (cases "m s")
    case (Pair r s')
    with assms(1) have s': "prefix (trace s) (trace s')"
      by (metis appendsD snd_conv)
    show ?thesis
    proof (cases r)
      case (Inl e)
      with Pair s' show ?thesis by (simp add: bnd_def)
    next
      case (Inr x)
      from assms(2) [of x] have "prefix (trace s') (trace (snd (f x s')))"
        by (rule appendsD)
      with s' have "prefix (trace s) (trace (snd (f x s')))"
        by (rule prefix_order.trans)
      with Pair Inr show ?thesis by (simp add: bnd_def)
    qed
  qed
qed

lemma appends_seq: "appends m \<Longrightarrow> appends k \<Longrightarrow> appends (seq m k)"
  by (simp add: seq_def appends_bnd)

lemma appends_spawn:
  "appends (run_process w argv)"
  by (rule appendsI) (simp add: run_process_def split: option.splits prod.splits)

lemma appends_subprocess_run: "appends (subprocess_run w argv)"
  unfolding subprocess_run_def by (intro appends_seq appends_emit appends_spawn)

lemma appends_container_reload: "appends (container_reload c)"
  unfolding container_reload_def by (intro appends_seq appends_emit appends_ret)

lemma appends_poll_running: "appends (poll_running k c)"
proof (induction k arbitrary: c)
  case 0
  show ?case by (simp add: appends_ret)
next
  case (Suc k)
  show ?case
    by (simp only: poll_running.simps)
       (intro appends_bnd appends_container_reload, simp add: appends_ret appends_seq appends_emit Suc.IH)
qed

lemma appends_discover: "appends (discover cs acc)"
proof (induction cs arbitrary: acc)
  case Nil
  show ?case by (simp add: appends_ret)
next
  case (Cons c cs)
  obtain ns "is" where acc: "acc = (ns, is)" by (cases acc)
  show ?case
    unfolding acc discover.simps
    by (intro appends_bnd appends_poll_running Cons.IH)
qed

lemma appends_collect: "appends (collect_agents_and_generate_casc w svc)"
  unfolding collect_agents_and_generate_casc_def Let_def
  by (intro appends_seq appends_logging appends_bnd appends_discover)
     (simp add: appends_seq appends_logging appends_subprocess_run split: prod.splits)

lemma appends_lift: "appends (lift r)"
  by (simp add: appends_def lift_def)

lemma appends_setup_controller: "appends (setup_jenkins_controller w c)"
  unfolding setup_jenkins_controller_def
  by (intro appends_seq appends_logging appends_bnd appends_lift appends_subprocess_run)

lemma appends_get_url: "appends (get_jenkins_url_from_env w c)"
proof (cases "find (\<lambda>x. sublist c (cname x)) (containers_list_all_controller w)")
  case None
  then show ?thesis
    by (simp add: get_jenkins_url_from_env_def appends_seq appends_logging appends_ret)
next
  case (Some x)
  then show ?thesis
    by (simp add: get_jenkins_url_from_env_def Let_def)
       (intro appends_seq appends_logging appends_bnd appends_container_reload appends_ret)
qed

lemma appends_after_launch:
  "appends (seq (run_process w argv)
      (seq (collect_agents_and_generate_casc w a)
      (seq (setup_jenkins_controller w (YStr c))
      (seq (logging_info ''Jenkins agents and controller are up and casc.generated.yaml is updated.'' [])
      (bnd (get_jenkins_url_from_env w c) (\<lambda>jenkins_url.
         if truthy jenkins_url then logging_info ''Jenkins URL: %s'' [S (the jenkins_url)]
         else ret ()))))))"
  by (intro appends_seq appends_spawn appends_collect appends_setup_controller appends_logging
      appends_bnd appends_get_url)
     (simp add: appends_logging appends_ret)

lemma seq_assoc: "seq (seq a b) c = seq a (seq b c)"
  by (rule ext) (simp add: seq_def bnd_def split: prod.splits sum.splits)

lemma str_int_negative: "n < 0 \<Longrightarrow> str_int n = ''-'' @ str_nat (nat (- n))"
  by (simp add: str_int_def)

lemma setup_jenkins_agents_str:
  "setup_jenkins_agents w n (YStr a) =
     seq (logging_info ''Starting %d %s containers...'' [I n, S a])
       (subprocess_run w
          [''docker'', ''compose'', ''up'', a, ''--build'', ''-d'', ''--scale'', a @ ''='' @ str_int n])"
  by (simp add: setup_jenkins_agents_def bnd_lift_Inr)

lemma create_launches:
  assumes uv: "truthy (which w ''uv'')"
      and fl: "fs s path = Some (File txt)"
      and yaml: "yaml_safe_load w txt = Inr compose"
      and sv: "declared_services compose = Inr (map YStr names)"
      and ag: "find is_agent_name (rev names) = Some a"
      and ct: "find is_controller_name (rev names) = Some c"
      and kg: "spawn w [''ssh-keygen'', ''-t'', ''ed25519'', ''-N'', [], ''-f'', os_path_join (mkdtemp w) ''id_ed25519'']
                 ((fs s)(mkdtemp w \<mapsto> Dir)) = Some (0, files)"
      and priv: "files (os_path_join (mkdtemp w) ''id_ed25519'') = Some (File priv)"
      and pub: "files (os_path_join (mkdtemp w) ''id_ed25519'' @ ''.pub'') = Some (File pub)"
  shows "\<exists>t. trace (snd (create_jenkins_system w path n s)) = trace s @
        [Log INFO ''Creating Jenkins system with compose file: %s and agent count: %d'' [S path, I n],
         Log INFO (CHR 0x27 # ''uv'' @ CHR 0x27 # '' check started.'') [],
         Log INFO ''Reading service names from compose file: %s'' [S path],
         Log INFO ''Agent service: %s, Controller service: %s'' [S a, S c],
         Log INFO ''Generating SSH key pair.'' [],
         Run [''ssh-keygen'', ''-t'', ''ed25519'', ''-N'', [], ''-f'', os_path_join (mkdtemp w) ''id_ed25519''],
         Log INFO ''Temporary SSH key directory %s deleted.'' [S (mkdtemp w)],
         Log INFO ''Starting %d %s containers...'' [I n, S a],
         Run [''docker'', ''compose'', ''up'', a, ''--build'', ''-d'', ''--scale'', a @ ''='' @ str_int n]] @ t"
proof -
  let ?s1 = "s\<lparr>trace := trace s @
        [Log INFO ''Creating Jenkins system with compose file: %s and agent count: %d'' [S path, I n],
         Log INFO (CHR 0x27 # ''uv'' @ CHR 0x27 # '' check started.'') []]\<rparr>"
  have names: "get_service_names (yaml_safe_load w) path ?s1 =
     (Inr (YStr a, YStr c), ?s1\<lparr>trace := trace ?s1 @
        [Log INFO ''Reading service names from compose file: %s'' [S path],
         Log INFO ''Agent service: %s, Controller service: %s'' [S a, S c]]\<rparr>)"
    using fl yaml sv ag ct by (simp add: get_service_names_found)
  let ?s2 = "?s1\<lparr>trace := trace ?s1 @
        [Log INFO ''Reading service names from compose file: %s'' [S path],
         Log INFO ''Agent service: %s, Controller service: %s'' [S a, S c]]\<rparr>"
  have keys: "setup_ssh_key w ?s2 =
     (Inr (priv, pub),
      ?s2\<lparr>fs := rmtree (mkdtemp w) files,
        trace := trace ?s2 @
          [Log INFO ''Generating SSH key pair.'' [],
           Run [''ssh-keygen'', ''-t'', ''ed25519'', ''-N'', [], ''-f'', os_path_join (mkdtemp w) ''id_ed25519''],
           Log INFO ''Temporary SSH key directory %s deleted.'' [S (mkdtemp w)]]\<rparr>)"
    using kg priv pub by (simp add: setup_ssh_key_ok)
  let ?argv = "[''docker'', ''compose'', ''up'', a, ''--build'', ''-d'', ''--scale'', a @ ''='' @ str_int n]"
  let ?rest = "seq (run_process w ?argv)
      (seq (collect_agents_and_generate_casc w a)
      (seq (setup_jenkins_controller w (YStr c))
      (seq (logging_info ''Jenkins agents and controller are up and casc.generated.yaml is updated.'' [])
      (bnd (get_jenkins_url_from_env w c) (\<lambda>jenkins_url.
         if truthy jenkins_url then logging_info ''Jenkins URL: %s'' [S (the jenkins_url)]
         else ret ())))))"
  obtain s5 where run: "create_jenkins_system w path n s = ?rest s5"
    and tr: "trace s5 = trace s @
        [Log INFO ''Creating Jenkins system with compose file: %s and agent count: %d'' [S path, I n],
         Log INFO (CHR 0x27 # ''uv'' @ CHR 0x27 # '' check started.'') [],
         Log INFO ''Reading service names from compose file: %s'' [S path],
         Log INFO ''Agent service: %s, Controller service: %s'' [S a, S c],
         Log INFO ''Generating SSH key pair.'' [],
         Run [''ssh-keygen'', ''-t'', ''ed25519'', ''-N'', [], ''-f'', os_path_join (mkdtemp w) ''id_ed25519''],
         Log INFO ''Temporary SSH key directory %s deleted.'' [S (mkdtemp w)],
         Log INFO ''Starting %d %s containers...'' [I n, S a],
         Run ?argv]"
  proof
    let ?s5 = "?s2\<lparr>fs := rmtree (mkdtemp w) files,
        environ := (environ s)(''JENKINS_SSH_PRIVATE_KEY'' \<mapsto> priv, ''JENKINS_AGENT_SSH_PUBKEY'' \<mapsto> pub),
        trace := trace ?s2 @
          [Log INFO ''Generating SSH key pair.'' [],
           Run [''ssh-keygen'', ''-t'', ''ed25519'', ''-N'', [], ''-f'', os_path_join (mkdtemp w) ''id_ed25519''],
           Log INFO ''Temporary SSH key directory %s deleted.'' [S (mkdtemp w)],
           Log INFO ''Starting %d %s containers...'' [I n, S a],
           Run ?argv]\<rparr>"
    show "create_jenkins_system w path n s = ?rest ?s5"
      using uv names keys
      by (simp add: create_jenkins_system_def check_uv_def setup_jenkins_agents_str subprocess_run_def
          seq_assoc seq_logging_info seq_emit ret_def bnd_lift_Inr
          seq_def [of "ret ()"] seq_def [of "os_environ_set _ _"] os_environ_set_def
          bnd_def [of "get_service_names _ _"] bnd_def [of "setup_ssh_key _"]
          bnd_def [of "ret ()"] bnd_def [of "os_environ_set _ _"])
    show "trace ?s5 = trace s @
        [Log INFO ''Creating Jenkins system with compose file: %s and agent count: %d'' [S path, I n],
         Log INFO (CHR 0x27 # ''uv'' @ CHR 0x27 # '' check started.'') [],
         Log INFO ''Reading service names from compose file: %s'' [S path],
         Log INFO ''Agent service: %s, Controller service: %s'' [S a, S c],
         Log INFO ''Generating SSH key pair.'' [],
         Run [''ssh-keygen'', ''-t'', ''ed25519'', ''-N'', [], ''-f'', os_path_join (mkdtemp w) ''id_ed25519''],
         Log INFO ''Temporary SSH key directory %s deleted.'' [S (mkdtemp w)],
         Log INFO ''Starting %d %s containers...'' [I n, S a],
         Run ?argv]"
      by simp
  qed
  have "prefix (trace s5) (trace (snd (?rest s5)))"
    using appends_after_launch [of w ?argv a c] by (rule appendsD)
  then obtain t where "trace (snd (?rest s5)) = trace s5 @ t"
    by (auto simp: prefix_def)
  with run tr show ?thesis by simp
qed

lemma cleanup_setup_world:
  "cleanup setup_world s =
     (Inr (), s\<lparr>trace := trace s @
        [Log INFO ''Stopping all running containers...'' [],
         Log INFO ''Removing all containers...'' [],
         Log INFO ''Removing all unused images...'' [],
         Log INFO ''Removing all unused volumes...'' [],
         Log INFO ''Cleaning up build cache...'' [],
         PruneBuilds,
         Log INFO ''Removing all unused networks...'' [],
         Log INFO ''Docker cleanup complete.'' []]\<rparr>)"
  by (simp add: cleanup_def setup_world_def quiet_world_def seq_def bnd_def logging_info_def emit_def
      except_APIError_def sdk_call_def ret_def)

section \<open>Claims about the Service Topology Reader\<close>

text \<open>
  C1 (as amended). For every compose document, read from a file that exists and parses,
  whose declared services are strings (the keys of its top-level \<^verbatim>\<open>services\<close>
  mapping), \<open>get_service_names\<close> returns as the agent service the LAST declared service
  name that contains \<^verbatim>\<open>agent\<close> and as the controller service the LAST declared service
  name that is \<^verbatim>\<open>jenkins\<close> or contains \<^verbatim>\<open>controller\<close> (the loop has no \<^verbatim>\<open>break\<close>,
  so a later match overwrites an earlier one); in particular, when exactly one declared
  name matches each criterion, it returns those two names.
\<close>

theorem get_service_names_selects_last:
  assumes "fs s path = Some (File txt)"
      and "load txt = Inr compose"
      and "declared_services compose = Inr (map YStr names)"
  shows "(find is_agent_name (rev names) = Some a \<and>
          find is_controller_name (rev names) = Some c
            \<longrightarrow> fst (get_service_names load path s) = Inr (YStr a, YStr c)) \<and>
         (filter is_agent_name names = [a] \<and>
          filter is_controller_name names = [c]
            \<longrightarrow> fst (get_service_names load path s) = Inr (YStr a, YStr c))"
proof (intro conjI impI)
  assume "find is_agent_name (rev names) = Some a \<and>
          find is_controller_name (rev names) = Some c"
  then show "fst (get_service_names load path s) = Inr (YStr a, YStr c)"
    using assms by (simp add: get_service_names_found)
next
  assume "filter is_agent_name names = [a] \<and>
          filter is_controller_name names = [c]"
  then have "find is_agent_name (rev names) = Some a"
        and "find is_controller_name (rev names) = Some c"
    by (simp_all add: find_rev_unique)
  then show "fst (get_service_names load path s) = Inr (YStr a, YStr c)"
    using assms by (simp add: get_service_names_found)
qed

text \<open>
  The specification's example: services \<^verbatim>\<open>jenkins-controller\<close> and \<^verbatim>\<open>jenkins-agent\<close>,
  one name for each criterion.
\<close>

theorem get_service_names_selects_last_witness:
  "fst (get_service_names example_yaml ''docker-compose.yml'' compose_state)
     = Inr (YStr ''jenkins-agent'', YStr ''jenkins-controller'')"
proof -
  have f: "fs compose_state ''docker-compose.yml'' = Some (File ''services: ...'')"
    by (simp add: compose_state_def)
  have l: "example_yaml ''services: ...'' =
      Inr (YMap [(YStr ''services'',
                  YMap [(YStr ''jenkins-controller'', YMap []), (YStr ''jenkins-agent'', YMap [])])])"
    by (simp add: example_yaml_def)
  have d: "declared_services
        (YMap [(YStr ''services'',
                YMap [(YStr ''jenkins-controller'', YMap []), (YStr ''jenkins-agent'', YMap [])])])
      = Inr (map YStr [''jenkins-controller'', ''jenkins-agent''])"
    by (simp add: declared_services_def py_get_def)
  have u: "filter is_agent_name [''jenkins-controller'', ''jenkins-agent''] = [''jenkins-agent''] \<and>
           filter is_controller_name [''jenkins-controller'', ''jenkins-agent''] = [''jenkins-controller'']"
    by (simp add: is_agent_name_def is_controller_name_def sublist_code(3))
  from get_service_names_selects_last
         [where load = example_yaml and a = "''jenkins-agent''" and c = "''jenkins-controller''", OF f l d] u
  show ?thesis by blast
qed

text \<open>
  C1 as stated fails: with services \<^verbatim>\<open>agent-a\<close>, \<^verbatim>\<open>agent-b\<close>, \<^verbatim>\<open>jenkins\<close> declared in
  this order, the first name containing \<^verbatim>\<open>agent\<close> is \<^verbatim>\<open>agent-a\<close>, and the reader
  returns \<^verbatim>\<open>agent-b\<close>.
\<close>

theorem get_service_names_first_counterexample:
  "find is_agent_name [''agent-a'', ''agent-b'', ''jenkins''] = Some ''agent-a'' \<and>
   fst (get_service_names two_agents_yaml ''docker-compose.yml'' compose_state)
     = Inr (YStr ''agent-b'', YStr ''jenkins'')"
  by (simp add: get_service_names_def two_agents_yaml_def compose_state_def seq_logging_info
      bnd_def read_text_def lift_def declared_services_def py_get_def is_agent_name_def
      logging_info_def emit_def seq_def ret_def sublist_code(3))




section \<open>Claims about the Orchestrator\<close>

text \<open>
  C8. For every run invoked with an agent count of exactly 0, whatever the clean flag,
  \<open>main\<close> only writes two log records (no call into the container runtime, no
  credential generation, no external command; filesystem and environment unchanged) and
  returns: the exit status is 0.
\<close>

theorem main_zero_agents:
  assumes "num_agents a = 0"
  shows "main w a s =
     (Inr (), s\<lparr>trace := trace s @
        [Log INFO ''Starting Jenkins Docker Manager main function.'' [],
         Log INFO ''Number of Jenkins agents is 0. Exiting.'' []]\<rparr>)
     \<and> exit_status (fst (main w a s)) = 0"
  using assms by (simp add: main_def seq_logging_info logging_info_run)

theorem main_zero_agents_witness:
  "main quiet_world \<lparr>clean = True, compose_file = ''docker-compose.yml'', num_agents = 0\<rparr> empty_state =
     (Inr (), empty_state\<lparr>trace :=
        [Log INFO ''Starting Jenkins Docker Manager main function.'' [],
         Log INFO ''Number of Jenkins agents is 0. Exiting.'' []]\<rparr>)"
proof -
  have z: "num_agents \<lparr>clean = True, compose_file = ''docker-compose.yml'', num_agents = 0\<rparr> = 0"
    by simp
  have t: "trace empty_state = []"
    by (simp add: empty_state_def)
  from main_zero_agents [OF z, of quiet_world empty_state] t show ?thesis by simp
qed

text \<open>
  C2 (as amended). For every run started with the clean flag set, a nonzero agent count
  and a compose file path that does not exist, \<open>main\<close> runs the CLEANUP stage first and,
  once cleanup has completed, logs an error and exits with status 1 without running any
  stage of the system setup: the final state is the state cleanup left, with two more
  log records.
\<close>

theorem main_missing_compose_file:
  assumes "clean a" and "num_agents a \<noteq> 0" and "fs s (compose_file a) = None"
      and "cleanup w (s\<lparr>trace := trace s @ [Log INFO ''Starting Jenkins Docker Manager main function.'' []]\<rparr>) = (Inr (), s')"
  shows "main w a s =
     (Inl (SystemExit 1),
      s'\<lparr>trace := trace s' @
        [Log INFO ''Cleanup complete. Proceeding to Jenkins system setup...'' [],
         Log ERROR ''Compose file %s does not exist. Exiting.'' [S (compose_file a)]]\<rparr>)
     \<and> exit_status (fst (main w a s)) = 1"
  using assms by (simp add: main_missing_file)

theorem main_missing_compose_file_witness:
  "main quiet_world missing_file_args empty_state =
     (Inl (SystemExit 1),
      empty_state\<lparr>trace :=
        [Log INFO ''Starting Jenkins Docker Manager main function.'' [],
         Log INFO ''Stopping all running containers...'' [],
         Log INFO ''Removing all containers...'' [],
         Log INFO ''Removing all unused images...'' [],
         Log INFO ''Removing all unused volumes...'' [],
         Log INFO ''Cleaning up build cache...'' [],
         PruneBuilds,
         Log INFO ''Removing all unused networks...'' [],
         Log INFO ''Docker cleanup complete.'' [],
         Log INFO ''Cleanup complete. Proceeding to Jenkins system setup...'' [],
         Log ERROR ''Compose file %s does not exist. Exiting.'' [S ''missing.yml'']]\<rparr>)"
proof -
  have c: "clean missing_file_args" and n: "num_agents missing_file_args \<noteq> 0"
    by (simp_all add: missing_file_args_def)
  have f: "fs empty_state (compose_file missing_file_args) = None"
    by (simp add: empty_state_def)
  note r = cleanup_quiet_world
    [of "empty_state\<lparr>trace := trace empty_state @ [Log INFO ''Starting Jenkins Docker Manager main function.'' []]\<rparr>"]
  from main_missing_compose_file [OF c n f r] show ?thesis
    by (simp add: missing_file_args_def empty_state_def)
qed

text \<open>
  C2 as stated fails twice. With the clean flag set and the compose file missing, the
  run with one agent stops and removes containers before it exits (cleanup comes before
  the test of the file), and the run with zero agents exits with status 0.
\<close>

theorem main_missing_compose_file_counterexample:
  "clean missing_file_args \<and> fs empty_state (compose_file missing_file_args) = None \<and>
   ContainerStop ''agent-1'' \<in> set (trace (snd (main busy_world missing_file_args empty_state))) \<and>
   ContainerRemove ''db'' \<in> set (trace (snd (main busy_world missing_file_args empty_state))) \<and>
   clean zero_agents_missing_file_args \<and>
   fs empty_state (compose_file zero_agents_missing_file_args) = None \<and>
   exit_status (fst (main quiet_world zero_agents_missing_file_args empty_state)) = 0"
proof -
  have c: "clean missing_file_args" and n: "num_agents missing_file_args \<noteq> 0"
    by (simp_all add: missing_file_args_def)
  have f: "fs empty_state (compose_file missing_file_args) = None"
    by (simp add: empty_state_def)
  note r = cleanup_busy_world
    [of "empty_state\<lparr>trace := trace empty_state @ [Log INFO ''Starting Jenkins Docker Manager main function.'' []]\<rparr>"]
  have z: "exit_status (fst (main quiet_world zero_agents_missing_file_args empty_state)) = 0"
    by (simp add: main_def zero_agents_missing_file_args_def seq_logging_info logging_info_run)
  from main_missing_file [OF c n f r] c f z show ?thesis
    by (simp add: zero_agents_missing_file_args_def empty_state_def)
qed

text \<open>
  C9. For every run that reaches the system setup (clean flag set, nonzero agent count,
  cleanup completed, compose file present), if \<^verbatim>\<open>uv\<close> is not found on the PATH then
  \<open>main\<close> exits with status 1 right after the check: the service names are not resolved,
  no credentials are generated and no external command is run (the final state is the
  state cleanup left, with four more log records).
\<close>

theorem main_uv_gate:
  assumes "clean a" and "num_agents a \<noteq> 0" and "fs s (compose_file a) \<noteq> None"
      and "cleanup w (s\<lparr>trace := trace s @ [Log INFO ''Starting Jenkins Docker Manager main function.'' []]\<rparr>) = (Inr (), s')"
      and "\<not> truthy (which w ''uv'')"
  shows "main w a s =
     (Inl (SystemExit 1),
      s'\<lparr>trace := trace s' @
        [Log INFO ''Cleanup complete. Proceeding to Jenkins system setup...'' [],
         Log INFO ''Creating Jenkins system with compose file: %s and agent count: %d''
           [S (compose_file a), I (num_agents a)],
         Log INFO (CHR 0x27 # ''uv'' @ CHR 0x27 # '' check started.'') [],
         Log INFO (CHR 0x27 # ''uv'' @ CHR 0x27 # '' is not installed. Please install it manually.'') []]\<rparr>)
     \<and> exit_status (fst (main w a s)) = 1"
  using assms by (simp add: main_clean create_no_uv)

theorem main_uv_gate_witness:
  "main quiet_world two_agents_args compose_state =
     (Inl (SystemExit 1),
      compose_state\<lparr>trace :=
        [Log INFO ''Starting Jenkins Docker Manager main function.'' [],
         Log INFO ''Stopping all running containers...'' [],
         Log INFO ''Removing all containers...'' [],
         Log INFO ''Removing all unused images...'' [],
         Log INFO ''Removing all unused volumes...'' [],
         Log INFO ''Cleaning up build cache...'' [],
         PruneBuilds,
         Log INFO ''Removing all unused networks...'' [],
         Log INFO ''Docker cleanup complete.'' [],
         Log INFO ''Cleanup complete. Proceeding to Jenkins system setup...'' [],
         Log INFO ''Creating Jenkins system with compose file: %s and agent count: %d''
           [S ''docker-compose.yml'', I 2],
         Log INFO (CHR 0x27 # ''uv'' @ CHR 0x27 # '' check started.'') [],
         Log INFO (CHR 0x27 # ''uv'' @ CHR 0x27 # '' is not installed. Please install it manually.'') []]\<rparr>)"
proof -
  have c: "clean two_agents_args" and n: "num_agents two_agents_args \<noteq> 0"
    by (simp_all add: two_agents_args_def)
  have f: "fs compose_state (compose_file two_agents_args) \<noteq> None"
    by (simp add: compose_state_def two_agents_args_def)
  note r = cleanup_quiet_world
    [of "compose_state\<lparr>trace := trace compose_state @ [Log INFO ''Starting Jenkins Docker Manager main function.'' []]\<rparr>"]
  have u: "\<not> truthy (which quiet_world ''uv'')"
    by (simp add: quiet_world_def)
  from main_uv_gate [OF c n f r u] show ?thesis
    by (simp add: two_agents_args_def compose_state_def)
qed

section \<open>Claims about the Cleanup Executor\<close>

text \<open>
  C3 (as amended). When every failure raised by an individual attempt of the Cleanup
  Executor (stopping or removing a container, removing an image, a volume or a
  non-reserved network, pruning the build cache) is a \<^verbatim>\<open>docker.errors.APIError\<close>,
  \<open>cleanup\<close> returns normally: every enumerated resource of every category is attempted,
  in order, each failure is logged as a warning right after its attempt, and the
  reserved networks \<^verbatim>\<open>bridge\<close>, \<^verbatim>\<open>host\<close> and \<^verbatim>\<open>none\<close> are skipped. The trace is
  given in full.
\<close>

theorem cleanup_best_effort:
  assumes stop: "\<forall>c\<in>set (containers_list_running w). stop_raises c = None \<or> stop_raises c = Some APIError"
      and remove: "\<forall>c\<in>set (containers_list_all_cleanup w). remove_raises c = None \<or> remove_raises c = Some APIError"
      and images: "\<forall>i\<in>set (images_list w). image_remove_raises i = None \<or> image_remove_raises i = Some APIError"
      and volumes: "\<forall>v\<in>set (volumes_list w). volume_remove_raises v = None \<or> volume_remove_raises v = Some APIError"
      and prune: "prune_builds_raises w = None \<or> prune_builds_raises w = Some APIError"
      and nets: "\<forall>n\<in>set (networks_list w). network_name n \<notin> set [''bridge'', ''host'', ''none''] \<longrightarrow>
                   network_remove_raises n = None \<or> network_remove_raises n = Some APIError"
  shows "cleanup w s =
     (Inr (), s\<lparr>trace := trace s @
        [Log INFO ''Stopping all running containers...'' []] @
        concat (map (\<lambda>c. ContainerStop (cname c) #
                  (if stop_raises c = None then [] else [Log WARNING ''Failed to stop container %s'' [S (cname c)]]))
                (containers_list_running w)) @
        [Log INFO ''Removing all containers...'' []] @
        concat (map (\<lambda>c. ContainerRemove (cname c) #
                  (if remove_raises c = None then [] else [Log WARNING ''Failed to remove container %s'' [S (cname c)]]))
                (containers_list_all_cleanup w)) @
        [Log INFO ''Removing all unused images...'' []] @
        concat (map (\<lambda>i. ImageRemove (image_id i) #
                  (if image_remove_raises i = None then [] else [Log WARNING ''Failed to remove image %s'' [S (image_id i)]]))
                (images_list w)) @
        [Log INFO ''Removing all unused volumes...'' []] @
        concat (map (\<lambda>v. VolumeRemove (volume_name v) #
                  (if volume_remove_raises v = None then [] else [Log WARNING ''Failed to remove volume %s'' [S (volume_name v)]]))
                (volumes_list w)) @
        [Log INFO ''Cleaning up build cache...'' [], PruneBuilds] @
        (if prune_builds_raises w = None then [] else [Log WARNING ''Failed to prune build cache'' []]) @
        [Log INFO ''Removing all unused networks...'' []] @
        concat (map (\<lambda>n. if network_name n \<notin> set [''bridge'', ''host'', ''none'']
                          then NetworkRemove (network_name n) #
                            (if network_remove_raises n = None then []
                             else [Log WARNING ''Failed to remove network %s'' [S (network_name n)]])
                          else [])
                (networks_list w)) @
        [Log INFO ''Docker cleanup complete.'' []]\<rparr>)"
  using assms by (rule cleanup_caught)

theorem cleanup_best_effort_witness:
  "cleanup busy_world empty_state =
     (Inr (), empty_state\<lparr>trace :=
        [Log INFO ''Stopping all running containers...'' [],
         ContainerStop ''agent-1'',
         ContainerStop ''db'', Log WARNING ''Failed to stop container %s'' [S ''db''],
         Log INFO ''Removing all containers...'' [],
         ContainerRemove ''agent-1'', Log WARNING ''Failed to remove container %s'' [S ''agent-1''],
         ContainerRemove ''db'',
         Log INFO ''Removing all unused images...'' [],
         ImageRemove ''sha256:1'', Log WARNING ''Failed to remove image %s'' [S ''sha256:1''],
         Log INFO ''Removing all unused volumes...'' [],
         VolumeRemove ''jenkins_home'',
         Log INFO ''Cleaning up build cache...'' [],
         PruneBuilds, Log WARNING ''Failed to prune build cache'' [],
         Log INFO ''Removing all unused networks...'' [],
         NetworkRemove ''jenkins_net'',
         Log INFO ''Docker cleanup complete.'' []]\<rparr>)"
proof -
  have h1: "\<forall>c\<in>set (containers_list_running busy_world). stop_raises c = None \<or> stop_raises c = Some APIError"
    by (simp add: busy_world_def quiet_world_def mk_container_def)
  have h2: "\<forall>c\<in>set (containers_list_all_cleanup busy_world). remove_raises c = None \<or> remove_raises c = Some APIError"
    by (simp add: busy_world_def quiet_world_def mk_container_def)
  have h3: "\<forall>i\<in>set (images_list busy_world). image_remove_raises i = None \<or> image_remove_raises i = Some APIError"
    by (simp add: busy_world_def quiet_world_def)
  have h4: "\<forall>v\<in>set (volumes_list busy_world). volume_remove_raises v = None \<or> volume_remove_raises v = Some APIError"
    by (simp add: busy_world_def quiet_world_def)
  have h5: "prune_builds_raises busy_world = None \<or> prune_builds_raises busy_world = Some APIError"
    by (simp add: busy_world_def quiet_world_def)
  have h6: "\<forall>n\<in>set (networks_list busy_world). network_name n \<notin> set [''bridge'', ''host'', ''none''] \<longrightarrow>
              network_remove_raises n = None \<or> network_remove_raises n = Some APIError"
    by (simp add: busy_world_def quiet_world_def)
  from cleanup_best_effort [OF h1 h2 h3 h4 h5 h6, of empty_state]
  show ?thesis
    by (simp add: busy_world_def quiet_world_def mk_container_def empty_state_def)
qed

text \<open>
  C3 as stated fails: \<open>cleanup\<close> catches \<^verbatim>\<open>docker.errors.APIError\<close> only. When stopping
  the first of two running containers raises another exception (here a read timeout of
  the SDK's HTTP client), no warning is logged, the second container is not attempted, no
  later category is processed, and the exception leaves \<open>cleanup\<close>.
\<close>

theorem cleanup_escalates_counterexample:
  "cleanup timeout_world empty_state =
     (Inl (OtherException ''requests.exceptions.ReadTimeout''),
      empty_state\<lparr>trace :=
        [Log INFO ''Stopping all running containers...'' [], ContainerStop ''agent-1'']\<rparr>)"
  by (simp add: cleanup_def timeout_world_def quiet_world_def mk_container_def empty_state_def
      seq_def bnd_def logging_info_def emit_def except_APIError_def sdk_call_def raise_def)

section \<open>Claims about the Credential Provisioner\<close>

text \<open>
  C6. After every execution of \<open>setup_ssh_key\<close>, whatever the key-generation command
  and the reads of the key files did, the temporary directory it created does not exist
  in the filesystem, and no path below it does: this holds when the pair of keys is
  returned and when a step fails. A non-zero exit code of \<^verbatim>\<open>ssh-keygen\<close> leaves the
  function as \<^verbatim>\<open>CalledProcessError\<close> (after the directory is removed); exit code 0 with
  both key files written returns their contents.
\<close>

theorem setup_ssh_key_scoped_directory:
  "fs (snd (setup_ssh_key w s)) (mkdtemp w) = None \<and>
   (\<forall>p. prefix (mkdtemp w @ ''/'') p \<longrightarrow> fs (snd (setup_ssh_key w s)) p = None) \<and>
   (spawn w [''ssh-keygen'', ''-t'', ''ed25519'', ''-N'', [], ''-f'', os_path_join (mkdtemp w) ''id_ed25519'']
        ((fs s)(mkdtemp w \<mapsto> Dir)) = Some (rc, files) \<and> rc \<noteq> 0
      \<longrightarrow> fst (setup_ssh_key w s) =
            Inl (CalledProcessError rc
                  [''ssh-keygen'', ''-t'', ''ed25519'', ''-N'', [], ''-f'', os_path_join (mkdtemp w) ''id_ed25519''])) \<and>
   (spawn w [''ssh-keygen'', ''-t'', ''ed25519'', ''-N'', [], ''-f'', os_path_join (mkdtemp w) ''id_ed25519'']
        ((fs s)(mkdtemp w \<mapsto> Dir)) = Some (0, files) \<and>
    files (os_path_join (mkdtemp w) ''id_ed25519'') = Some (File priv) \<and>
    files (os_path_join (mkdtemp w) ''id_ed25519'' @ ''.pub'') = Some (File pub)
      \<longrightarrow> fst (setup_ssh_key w s) = Inr (priv, pub))"
proof -
  obtain files' where f: "fs (snd (setup_ssh_key w s)) = rmtree (mkdtemp w) files'"
    using setup_ssh_key_fs by blast
  have gone: "fs (snd (setup_ssh_key w s)) (mkdtemp w) = None"
    by (simp add: f rmtree_gone)
  have below: "\<forall>p. prefix (mkdtemp w @ ''/'') p \<longrightarrow> fs (snd (setup_ssh_key w s)) p = None"
    by (simp add: f rmtree_gone)
  show ?thesis
    using gone below by (auto simp: setup_ssh_key_keygen_fails setup_ssh_key_ok)
qed

theorem setup_ssh_key_scoped_directory_witness:
  "fs (snd (setup_ssh_key keygen_fails_world empty_state)) ''/tmp/tmpk'' = None \<and>
   fs (snd (setup_ssh_key keygen_fails_world empty_state)) ''/tmp/tmpk/id_ed25519'' = None \<and>
   fst (setup_ssh_key keygen_fails_world empty_state) =
     Inl (CalledProcessError 1 [''ssh-keygen'', ''-t'', ''ed25519'', ''-N'', [], ''-f'', ''/tmp/tmpk/id_ed25519'']) \<and>
   fs (snd (setup_ssh_key setup_world empty_state)) ''/tmp/tmpk'' = None \<and>
   fs (snd (setup_ssh_key setup_world empty_state)) ''/tmp/tmpk/id_ed25519'' = None \<and>
   fst (setup_ssh_key setup_world empty_state) = Inr (''PRIVATE'', ''PUBLIC'')"
proof -
  have d1: "mkdtemp keygen_fails_world = ''/tmp/tmpk''" and d2: "mkdtemp setup_world = ''/tmp/tmpk''"
    by (simp_all add: keygen_fails_world_def setup_world_def quiet_world_def)
  have p: "prefix (''/tmp/tmpk'' @ ''/'') ''/tmp/tmpk/id_ed25519''"
    by simp
  have bad: "spawn keygen_fails_world
        [''ssh-keygen'', ''-t'', ''ed25519'', ''-N'', [], ''-f'', os_path_join (mkdtemp keygen_fails_world) ''id_ed25519'']
        ((fs empty_state)(mkdtemp keygen_fails_world \<mapsto> Dir))
      = Some (1, ((fs empty_state)(''/tmp/tmpk'' \<mapsto> Dir))(''/tmp/tmpk/id_ed25519'' \<mapsto> File ''PARTIAL'')) \<and> (1::int) \<noteq> 0"
    by (simp add: keygen_fails_world_def quiet_world_def)
  have good: "spawn setup_world
        [''ssh-keygen'', ''-t'', ''ed25519'', ''-N'', [], ''-f'', os_path_join (mkdtemp setup_world) ''id_ed25519'']
        ((fs empty_state)(mkdtemp setup_world \<mapsto> Dir))
      = Some (0, ((fs empty_state)(''/tmp/tmpk'' \<mapsto> Dir))
                   (''/tmp/tmpk/id_ed25519'' \<mapsto> File ''PRIVATE'', ''/tmp/tmpk/id_ed25519.pub'' \<mapsto> File ''PUBLIC'')) \<and>
      (((fs empty_state)(''/tmp/tmpk'' \<mapsto> Dir))
          (''/tmp/tmpk/id_ed25519'' \<mapsto> File ''PRIVATE'', ''/tmp/tmpk/id_ed25519.pub'' \<mapsto> File ''PUBLIC''))
        (os_path_join (mkdtemp setup_world) ''id_ed25519'') = Some (File ''PRIVATE'') \<and>
      (((fs empty_state)(''/tmp/tmpk'' \<mapsto> Dir))
          (''/tmp/tmpk/id_ed25519'' \<mapsto> File ''PRIVATE'', ''/tmp/tmpk/id_ed25519.pub'' \<mapsto> File ''PUBLIC''))
        (os_path_join (mkdtemp setup_world) ''id_ed25519'' @ ''.pub'') = Some (File ''PUBLIC'')"
    by (simp add: setup_world_def quiet_world_def key_path_tmpk)
  from setup_ssh_key_scoped_directory
         [of keygen_fails_world empty_state 1
             "((fs empty_state)(''/tmp/tmpk'' \<mapsto> Dir))(''/tmp/tmpk/id_ed25519'' \<mapsto> File ''PARTIAL'')"]
       bad p
  have one: "fs (snd (setup_ssh_key keygen_fails_world empty_state)) ''/tmp/tmpk'' = None \<and>
       fs (snd (setup_ssh_key keygen_fails_world empty_state)) ''/tmp/tmpk/id_ed25519'' = None \<and>
       fst (setup_ssh_key keygen_fails_world empty_state) =
         Inl (CalledProcessError 1 [''ssh-keygen'', ''-t'', ''ed25519'', ''-N'', [], ''-f'', ''/tmp/tmpk/id_ed25519''])"
    by (simp add: d1 key_path_tmpk)
  from setup_ssh_key_scoped_directory
         [of setup_world empty_state 0
             "((fs empty_state)(''/tmp/tmpk'' \<mapsto> Dir))
                (''/tmp/tmpk/id_ed25519'' \<mapsto> File ''PRIVATE'', ''/tmp/tmpk/id_ed25519.pub'' \<mapsto> File ''PUBLIC'')"
             "''PRIVATE''" "''PUBLIC''"]
       good p
  have two: "fs (snd (setup_ssh_key setup_world empty_state)) ''/tmp/tmpk'' = None \<and>
       fs (snd (setup_ssh_key setup_world empty_state)) ''/tmp/tmpk/id_ed25519'' = None \<and>
       fst (setup_ssh_key setup_world empty_state) = Inr (''PRIVATE'', ''PUBLIC'')"
    by (simp add: d2 key_path_tmpk)
  from one two show ?thesis by simp
qed

section \<open>Claims about the Template Renderer\<close>

text \<open>
  C5. For every invocation of the renderer with an argument list of length \<open>2 * N\<close>,
  with the template file present: the agent records pair the \<open>i\<close>-th of the first \<open>N\<close>
  arguments (name) with the \<open>i\<close>-th of the last \<open>N\<close> (ip), in order; the template is
  rendered with that sequence; when the engine returns a document it is written to
  \<^verbatim>\<open>jenkins/casc.generated.yaml\<close>, replacing what the path held, and one line reporting
  \<open>N\<close> agents is printed; when the engine raises, nothing is written or printed.
\<close>

theorem generate_casc_pairs:
  assumes "length argv = 2 * N"
      and "fs s ''jenkins/casc.yaml'' = Some (File template)"
  shows "generate_casc render argv s =
     (case render template (map (\<lambda>i. \<lparr>name = argv ! i, ip = argv ! (N + i)\<rparr>) [0..<N]) of
        Inl e \<Rightarrow> (Inl e, s)
      | Inr rendered \<Rightarrow>
          (Inr (), s\<lparr>fs := (fs s)(''jenkins/casc.generated.yaml'' \<mapsto> File rendered),
                    trace := trace s @
                      [Print (''Rendered jenkins/casc.generated.yaml for '' @ str_nat N @ '' agents.'')]\<rparr>))"
  using assms
  by (simp add: generate_casc_def Let_def half_length template_path zip_halves bnd_def seq_def
      emit_def raise_def split: sum.splits)

theorem generate_casc_pairs_witness:
  "generate_casc demo_render [''agent-1'', ''agent-2'', ''10.0.0.2'', ''10.0.0.3''] template_state =
     (Inr (), template_state
        \<lparr>fs := (fs template_state)
            (''jenkins/casc.generated.yaml'' \<mapsto> File ''agents:agent-1=10.0.0.2;agent-2=10.0.0.3;''),
         trace := [Print ''Rendered jenkins/casc.generated.yaml for 2 agents.'']\<rparr>)"
proof -
  have l: "length [''agent-1'', ''agent-2'', ''10.0.0.2'', ''10.0.0.3''] = 2 * 2"
    by simp
  have f: "fs template_state ''jenkins/casc.yaml'' = Some (File ''agents:'')"
    by (simp add: template_state_def)
  have u: "[0..<2] = [0, Suc 0]"
    by (simp add: upt_conv_Cons)
  have n: "str_nat 2 = ''2''"
    by (simp add: str_nat.simps)
  from generate_casc_pairs [OF l f, of demo_render] show ?thesis
    by (simp add: demo_render_def u n template_state_def)
qed

section \<open>Claims about the Agent Discoverer\<close>

text \<open>
  C4. \<open>collect_agents_and_generate_casc\<close> polls, one after the other, every container
  whose name contains the agent service name: a reload, and a sleep of 2 after each poll
  that does not report \<^verbatim>\<open>running\<close>; it stops at the first poll that reports
  \<^verbatim>\<open>running\<close> and after 20 polls at the latest (\<open>poll_events\<close>). It emits exactly
  one name and one address for each such container, also when \<^verbatim>\<open>running\<close> was never
  observed: the address is the first non-empty one among the networks of the last report,
  the empty string when there is none (\<open>first_address\<close>). The two lists have the same
  length and are passed, names first, to the renderer.
\<close>

theorem collect_agents_records:
  "collect_agents_and_generate_casc w svc s =
     (let agents = filter (\<lambda>c. sublist svc (cname c)) (containers_list_all_agents w);
          names = map cname agents;
          ips = map (\<lambda>c. first_address (networks (last_report c))) agents
      in subprocess_run w ([''python3'', ''jenkins/generate_casc.py''] @ names @ ips)
           (s\<lparr>trace := trace s @
              [Log INFO ''Collecting agent names and IPs for service %s.'' [S svc]] @
              concat (map poll_events agents) @
              [Log INFO ''Agent names: %s, Agent IPs: %s'' [L names, L ips]]\<rparr>)) \<and>
   length (map cname (filter (\<lambda>c. sublist svc (cname c)) (containers_list_all_agents w))) =
   length (map (\<lambda>c. first_address (networks (last_report c)))
             (filter (\<lambda>c. sublist svc (cname c)) (containers_list_all_agents w))) \<and>
   count_list (poll_events c) (ContainerReload (cname c)) = min (Suc (failed_polls 20 c)) 20 \<and>
   count_list (poll_events c) (ContainerReload (cname c)) \<le> 20 \<and>
   (i < 20 \<and> status (reloads c i) = ''running''
      \<longrightarrow> count_list (poll_events c) (ContainerReload (cname c)) \<le> Suc i)"
proof -
  have early: "i < 20 \<and> status (reloads c i) = ''running''
      \<longrightarrow> count_list (poll_events c) (ContainerReload (cname c)) \<le> Suc i"
    using failed_polls_early [of i 20 c] by (auto simp: count_poll_events)
  show ?thesis
    using early by (simp add: collect_agents_run Let_def count_poll_events)
qed

theorem collect_agents_records_witness:
  "Run [''python3'', ''jenkins/generate_casc.py'', ''agent-1'', ''agent-2'', ''10.0.0.2'', []]
     \<in> set (trace (snd (collect_agents_and_generate_casc discover_world ''agent'' empty_state))) \<and>
   count_list (poll_events quick_agent) (ContainerReload ''agent-1'') = 2 \<and>
   count_list (poll_events slow_agent) (ContainerReload ''agent-2'') = 20"
proof -
  have agents: "filter (\<lambda>c. sublist ''agent'' (cname c)) (containers_list_all_agents discover_world)
      = [quick_agent, slow_agent]"
    by (simp add: discover_world_def quiet_world_def quick_agent_def slow_agent_def mk_container_def
        sublist_code(3))
  have fq: "failed_polls 20 quick_agent = 1"
    by (simp add: failed_polls_def upt_20 quick_agent_def no_attrs_def running_attrs_def)
  have fs: "failed_polls 20 slow_agent = 20"
    by (simp add: failed_polls_def upt_20 slow_agent_def mk_container_def no_attrs_def)
  have ipq: "first_address (networks (last_report quick_agent)) = ''10.0.0.2''"
    by (simp add: last_report_def fq) (simp add: first_address_def quick_agent_def running_attrs_def)
  have ips: "first_address (networks (last_report slow_agent)) = []"
    by (simp add: last_report_def fs) (simp add: first_address_def slow_agent_def mk_container_def no_attrs_def)
  have nq: "cname quick_agent = ''agent-1''" and ns: "cname slow_agent = ''agent-2''"
    by (simp_all add: quick_agent_def slow_agent_def mk_container_def)
  have run: "status (reloads quick_agent 1) = ''running''"
    by (simp add: quick_agent_def running_attrs_def)
  from collect_agents_records [of discover_world "''agent''" empty_state quick_agent 1] run
  have one: "Run [''python3'', ''jenkins/generate_casc.py'', ''agent-1'', ''agent-2'', ''10.0.0.2'', []]
       \<in> set (trace (snd (collect_agents_and_generate_casc discover_world ''agent'' empty_state))) \<and>
     count_list (poll_events quick_agent) (ContainerReload ''agent-1'') = 2"
    by (simp add: Let_def agents ipq ips nq ns fq subprocess_run_trace)
  from collect_agents_records [of discover_world "''agent''" empty_state slow_agent 0]
  have two: "count_list (poll_events slow_agent) (ContainerReload ''agent-2'') = 20"
    by (simp add: ns fs)
  from one two show ?thesis by simp
qed

section \<open>Claims about a negative agent count\<close>

text \<open>
  C10 (as amended). The zero-agent test is an equality with 0. For every run invoked with
  a negative agent count and the clean flag set, in which cleanup completes, the compose
  file exists and parses, \<^verbatim>\<open>uv\<close> is installed, both service names are resolved
  (among declared services that are strings) and the key generation succeeds, \<open>main\<close> does not exit early: after cleanup it provisions
  the credentials and then runs the agent-launch compose command with the negative count
  as the scale value (\<^verbatim>\<open>--scale agent=-n\<close>). What follows the launch only adds to the
  trace.
\<close>

theorem main_negative_agent_count:
  assumes "clean a" and "num_agents a < 0"
      and "cleanup w (s\<lparr>trace := trace s @ [Log INFO ''Starting Jenkins Docker Manager main function.'' []]\<rparr>) = (Inr (), s')"
      and "fs s (compose_file a) = Some (File txt)"
      and "truthy (which w ''uv'')"
      and "yaml_safe_load w txt = Inr compose"
      and "declared_services compose = Inr (map YStr names)"
      and "find is_agent_name (rev names) = Some agent"
      and "find is_controller_name (rev names) = Some controller"
      and "spawn w [''ssh-keygen'', ''-t'', ''ed25519'', ''-N'', [], ''-f'', os_path_join (mkdtemp w) ''id_ed25519'']
             ((fs s)(mkdtemp w \<mapsto> Dir)) = Some (0, files)"
      and "files (os_path_join (mkdtemp w) ''id_ed25519'') = Some (File priv)"
      and "files (os_path_join (mkdtemp w) ''id_ed25519'' @ ''.pub'') = Some (File pub)"
  shows "\<exists>t. trace (snd (main w a s)) = trace s' @
        [Log INFO ''Cleanup complete. Proceeding to Jenkins system setup...'' [],
         Log INFO ''Creating Jenkins system with compose file: %s and agent count: %d''
           [S (compose_file a), I (num_agents a)],
         Log INFO (CHR 0x27 # ''uv'' @ CHR 0x27 # '' check started.'') [],
         Log INFO ''Reading service names from compose file: %s'' [S (compose_file a)],
         Log INFO ''Agent service: %s, Controller service: %s'' [S agent, S controller],
         Log INFO ''Generating SSH key pair.'' [],
         Run [''ssh-keygen'', ''-t'', ''ed25519'', ''-N'', [], ''-f'', os_path_join (mkdtemp w) ''id_ed25519''],
         Log INFO ''Temporary SSH key directory %s deleted.'' [S (mkdtemp w)],
         Log INFO ''Starting %d %s containers...'' [I (num_agents a), S agent],
         Run [''docker'', ''compose'', ''up'', agent, ''--build'', ''-d'', ''--scale'',
              agent @ ''=-'' @ str_nat (nat (- num_agents a))]] @ t"
proof -
  let ?s1 = "s'\<lparr>trace := trace s' @ [Log INFO ''Cleanup complete. Proceeding to Jenkins system setup...'' []]\<rparr>"
  from assms(3) have same: "fs s' = fs s"
    by (auto dest: cleanup_fs)
  from assms(2) have nz: "num_agents a \<noteq> 0" by simp
  have m: "main w a s = create_jenkins_system w (compose_file a) (num_agents a) ?s1"
    using assms(1) nz assms(3) assms(4) by (simp add: main_clean)
  have f: "fs ?s1 (compose_file a) = Some (File txt)"
    using same assms(4) by simp
  have k: "spawn w [''ssh-keygen'', ''-t'', ''ed25519'', ''-N'', [], ''-f'', os_path_join (mkdtemp w) ''id_ed25519'']
             ((fs ?s1)(mkdtemp w \<mapsto> Dir)) = Some (0, files)"
    using same assms(10) by simp
  from create_launches [OF assms(5) f assms(6) assms(7) assms(8) assms(9) k assms(11) assms(12), of "num_agents a"]
  obtain t where "trace (snd (create_jenkins_system w (compose_file a) (num_agents a) ?s1)) = trace ?s1 @
        [Log INFO ''Creating Jenkins system with compose file: %s and agent count: %d''
           [S (compose_file a), I (num_agents a)],
         Log INFO (CHR 0x27 # ''uv'' @ CHR 0x27 # '' check started.'') [],
         Log INFO ''Reading service names from compose file: %s'' [S (compose_file a)],
         Log INFO ''Agent service: %s, Controller service: %s'' [S agent, S controller],
         Log INFO ''Generating SSH key pair.'' [],
         Run [''ssh-keygen'', ''-t'', ''ed25519'', ''-N'', [], ''-f'', os_path_join (mkdtemp w) ''id_ed25519''],
         Log INFO ''Temporary SSH key directory %s deleted.'' [S (mkdtemp w)],
         Log INFO ''Starting %d %s containers...'' [I (num_agents a), S agent],
         Run [''docker'', ''compose'', ''up'', agent, ''--build'', ''-d'', ''--scale'',
              agent @ ''='' @ str_int (num_agents a)]] @ t"
    by blast
  with m assms(2) show ?thesis
    by (simp add: str_int_negative)
qed

theorem main_negative_agent_count_witness:
  "Run [''ssh-keygen'', ''-t'', ''ed25519'', ''-N'', [], ''-f'', ''/tmp/tmpk/id_ed25519'']
     \<in> set (trace (snd (main setup_world negative_args compose_state))) \<and>
   Run [''docker'', ''compose'', ''up'', ''jenkins-agent'', ''--build'', ''-d'', ''--scale'', ''jenkins-agent=-1'']
     \<in> set (trace (snd (main setup_world negative_args compose_state)))"
proof -
  have c: "clean negative_args" and n: "num_agents negative_args < 0"
    by (simp_all add: negative_args_def)
  note r = cleanup_setup_world
    [of "compose_state\<lparr>trace := trace compose_state @ [Log INFO ''Starting Jenkins Docker Manager main function.'' []]\<rparr>"]
  have f: "fs compose_state (compose_file negative_args) = Some (File ''services: ...'')"
    by (simp add: compose_state_def negative_args_def)
  have u: "truthy (which setup_world ''uv'')"
    by (simp add: setup_world_def quiet_world_def)
  have y: "yaml_safe_load setup_world ''services: ...'' =
      Inr (YMap [(YStr ''services'',
                  YMap [(YStr ''jenkins-controller'', YMap []), (YStr ''jenkins-agent'', YMap [])])])"
    by (simp add: setup_world_def quiet_world_def example_yaml_def)
  have sv: "declared_services
        (YMap [(YStr ''services'',
                YMap [(YStr ''jenkins-controller'', YMap []), (YStr ''jenkins-agent'', YMap [])])])
      = Inr (map YStr [''jenkins-controller'', ''jenkins-agent''])"
    by (simp add: declared_services_def py_get_def)
  have ag: "find is_agent_name (rev [''jenkins-controller'', ''jenkins-agent'']) = Some ''jenkins-agent''"
    by (simp add: is_agent_name_def sublist_code(3))
  have ct: "find is_controller_name (rev [''jenkins-controller'', ''jenkins-agent'']) = Some ''jenkins-controller''"
    by (simp add: is_controller_name_def sublist_code(3))
  have d: "mkdtemp setup_world = ''/tmp/tmpk''"
    by (simp add: setup_world_def quiet_world_def)
  have k: "spawn setup_world
        [''ssh-keygen'', ''-t'', ''ed25519'', ''-N'', [], ''-f'', os_path_join (mkdtemp setup_world) ''id_ed25519'']
        ((fs compose_state)(mkdtemp setup_world \<mapsto> Dir))
      = Some (0, ((fs compose_state)(''/tmp/tmpk'' \<mapsto> Dir))
                   (''/tmp/tmpk/id_ed25519'' \<mapsto> File ''PRIVATE'', ''/tmp/tmpk/id_ed25519.pub'' \<mapsto> File ''PUBLIC''))"
    by (simp add: setup_world_def quiet_world_def)
  have pr: "(((fs compose_state)(''/tmp/tmpk'' \<mapsto> Dir))
          (''/tmp/tmpk/id_ed25519'' \<mapsto> File ''PRIVATE'', ''/tmp/tmpk/id_ed25519.pub'' \<mapsto> File ''PUBLIC''))
        (os_path_join (mkdtemp setup_world) ''id_ed25519'') = Some (File ''PRIVATE'')"
    by (simp add: d key_path_tmpk)
  have pu: "(((fs compose_state)(''/tmp/tmpk'' \<mapsto> Dir))
          (''/tmp/tmpk/id_ed25519'' \<mapsto> File ''PRIVATE'', ''/tmp/tmpk/id_ed25519.pub'' \<mapsto> File ''PUBLIC''))
        (os_path_join (mkdtemp setup_world) ''id_ed25519'' @ ''.pub'') = Some (File ''PUBLIC'')"
    by (simp add: d key_path_tmpk)
  have one: "str_nat (nat (- num_agents negative_args)) = ''1''"
    by (simp add: negative_args_def str_nat.simps)
  from main_negative_agent_count [OF c n r f u y sv ag ct k pr pu]
  obtain t where "trace (snd (main setup_world negative_args compose_state)) =
      (trace compose_state @
        [Log INFO ''Starting Jenkins Docker Manager main function.'' [],
         Log INFO ''Stopping all running containers...'' [],
         Log INFO ''Removing all containers...'' [],
         Log INFO ''Removing all unused images...'' [],
         Log INFO ''Removing all unused volumes...'' [],
         Log INFO ''Cleaning up build cache...'' [],
         PruneBuilds,
         Log INFO ''Removing all unused networks...'' [],
         Log INFO ''Docker cleanup complete.'' []]) @
        [Log INFO ''Cleanup complete. Proceeding to Jenkins system setup...'' [],
         Log INFO ''Creating Jenkins system with compose file: %s and agent count: %d''
           [S (compose_file negative_args), I (num_agents negative_args)],
         Log INFO (CHR 0x27 # ''uv'' @ CHR 0x27 # '' check started.'') [],
         Log INFO ''Reading service names from compose file: %s'' [S (compose_file negative_args)],
         Log INFO ''Agent service: %s, Controller service: %s'' [S ''jenkins-agent'', S ''jenkins-controller''],
         Log INFO ''Generating SSH key pair.'' [],
         Run [''ssh-keygen'', ''-t'', ''ed25519'', ''-N'', [], ''-f'', ''/tmp/tmpk/id_ed25519''],
         Log INFO ''Temporary SSH key directory %s deleted.'' [S ''/tmp/tmpk''],
         Log INFO ''Starting %d %s containers...'' [I (num_agents negative_args), S ''jenkins-agent''],
         Run [''docker'', ''compose'', ''up'', ''jenkins-agent'', ''--build'', ''-d'', ''--scale'',
              ''jenkins-agent=-1'']] @ t"
    by (auto simp: d key_path_tmpk one)
  then show ?thesis by simp
qed

text \<open>
  C10 as stated fails for a run whose compose file is missing: with the count \<open>-1\<close>
  and the clean flag set, the run ends after cleanup with status 1; no credentials are
  provisioned and no compose command is run.
\<close>

theorem main_negative_agent_count_counterexample:
  "clean negative_missing_file_args \<and> num_agents negative_missing_file_args < 0 \<and>
   main quiet_world negative_missing_file_args empty_state =
     (Inl (SystemExit 1),
      empty_state\<lparr>trace :=
        [Log INFO ''Starting Jenkins Docker Manager main function.'' [],
         Log INFO ''Stopping all running containers...'' [],
         Log INFO ''Removing all containers...'' [],
         Log INFO ''Removing all unused images...'' [],
         Log INFO ''Removing all unused volumes...'' [],
         Log INFO ''Cleaning up build cache...'' [],
         PruneBuilds,
         Log INFO ''Removing all unused networks...'' [],
         Log INFO ''Docker cleanup complete.'' [],
         Log INFO ''Cleanup complete. Proceeding to Jenkins system setup...'' [],
         Log ERROR ''Compose file %s does not exist. Exiting.'' [S ''missing.yml'']]\<rparr>)"
proof -
  have c: "clean negative_missing_file_args" and n: "num_agents negative_missing_file_args \<noteq> 0"
    by (simp_all add: negative_missing_file_args_def)
  have f: "fs empty_state (compose_file negative_missing_file_args) = None"
    by (simp add: empty_state_def)
  note r = cleanup_quiet_world
    [of "empty_state\<lparr>trace := trace empty_state @ [Log INFO ''Starting Jenkins Docker Manager main function.'' []]\<rparr>"]
  from main_missing_file [OF c n f r] show ?thesis
    by (simp add: negative_missing_file_args_def empty_state_def)
qed

end
